theory Spec2Isabelle
  imports Complex_Main
begin

section \<open>Python exceptions as values\<close>

text \<open>
  Every \<open>raise\<close>, failed \<open>assert\<close>, read of an unbound local or of a missing attribute
  is a branch of the model that returns \<open>Inl\<close> of the exception's class.
\<close>

datatype error = AttributeError | UnboundLocalError | ZeroDivisionError | StopIteration
  | RuntimeError | AssertionError | ValueError | TypeError | IndexError

definition bindE :: "error + 'a \<Rightarrow> ('a \<Rightarrow> error + 'b) \<Rightarrow> error + 'b" where
  "bindE m f = (case m of Inl e \<Rightarrow> Inl e | Inr x \<Rightarrow> f x)"

section \<open>Network modules: parameters, gradient buffers, mode\<close>

text \<open>
  An \<open>nn.Sequential\<close> is a list of layers; the learnable tensors are kept as nested lists
  of reals. \<open>Conv2d w b s\<close> has weight \<open>w\<close> indexed \<open>[out][in][kh][kw]\<close>, bias \<open>b\<close> and
  stride \<open>s\<close>; \<open>Linear w b\<close> has weight \<open>[out][in]\<close>; \<open>LayerNorm g b\<close> has gain and bias;
  \<open>Parameter\<close> is a bare \<open>nn.Parameter\<close> matrix. The parameters of a module are its named
  sub-networks, in registration order.
\<close>

datatype layer =
    Conv2d "real list list list list" "real list" nat
  | ReLU
  | Linear "real list list" "real list"
  | LayerNorm "real list" "real list"
  | Tanh
  | Parameter "real list list"

type_synonym params = "(string \<times> layer list) list"

text \<open>
  The state of an \<open>nn.Module\<close>: its parameters, the \<open>.grad\<close> buffers of these parameters
  (\<open>None\<close> after \<open>zero_grad(set_to_none=True)\<close>), the buffers of spectral normalisation
  (one pair \<open>(u, v)\<close> for each normalised layer) and the train/eval flag.
\<close>

record nn_module =
  weights :: params
  buffers :: "(real list \<times> real list) list"
  grad :: "params option"
  training :: bool

record Discriminator = nn_module +
  dist_kind :: "string option"

record EncoderCL = nn_module +
  stochastic :: bool
  log_std_bounds :: "real \<times> real"

record TransitionModel = nn_module +
  model_type :: string
  max_sigma :: "real option"
  min_sigma :: "real option"

record Adam =
  lr :: real
  opt_state :: "(nat \<times> params \<times> params) option"

datatype module_id = ENCODER | ACTOR | CRITIC | CRITIC_TARGET | DISCRIMINATOR
  | TRANSITION_MODEL | REWARD_DECODER | CL_MODULE

section \<open>The random generator\<close>

text \<open>
  The process-wide generator, unfolded: the value its \<open>i\<close>-th draw has when it is read
  as a uniform variate on \<open>[0, 1)\<close> and when it is read as a standard normal variate,
  and the number of draws made so far.
\<close>

record rng =
  uniforms :: "nat \<Rightarrow> real"
  normals :: "nat \<Rightarrow> real"
  pos :: nat

section \<open>The tensor library\<close>

text \<open>
  Inside the training step a tensor is an opaque value of type \<open>'t\<close> that carries its
  autograd graph. The operations of \<open>torch\<close>, \<open>torchvision\<close> and of the helper module
  \<open>utils_folder\<close> that the agents call are the fields of one record; the agents' own
  control flow, state changes and data flow are written out over them.
\<close>

datatype unop = Neg | Mean | Square | Pow2 | Sqrt | Log | Sigmoid | ClampMin0 | SumLast
  | SumLastKeepdim | Norm2Dim1 | Unsqueeze | RequiresGrad | Transpose | RowMaxCol
  | ZerosLike | OnesLike | RandnLike

datatype binop = Add | Sub | Mul | Div | Min | MseLoss | SmoothL1None | MatMul
  | CrossEntropy

datatype jitter = NoJitter | Amount real | Range real real

datatype transform =
    ColorJitter jitter jitter jitter jitter
  | RandomGrayscale real
  | RandomHorizontalFlip real
  | RandomVerticalFlip real
  | GaussianBlur "nat \<times> nat" "real \<times> real"
  | RandomInvert real
  | RandomChannelPermutation
  | RandomResizedCrop "nat \<times> nat" "real \<times> real" "real \<times> real"
  | RandomApply transform real

record 't torch =
  schedule :: "string \<Rightarrow> int \<Rightarrow> real"
  to_torch :: "'t \<Rightarrow> 't"
  to_float :: "'t \<Rightarrow> 't"
  tsize :: "'t \<Rightarrow> nat list"
  detach :: "'t \<Rightarrow> 't"
  item :: "'t \<Rightarrow> real"
  un :: "unop \<Rightarrow> 't \<Rightarrow> 't"
  bin :: "binop \<Rightarrow> 't \<Rightarrow> 't \<Rightarrow> 't"
  scalar :: "real \<Rightarrow> 't"
  ones :: "nat list \<Rightarrow> 't"
  arange :: "nat \<Rightarrow> 't"
  cat :: "'t list \<Rightarrow> int \<Rightarrow> 't"
  index :: "'t \<Rightarrow> 't \<Rightarrow> 't"
  frame :: "'t \<Rightarrow> nat \<Rightarrow> 't"
  pad_and_shift :: "nat \<Rightarrow> 't \<Rightarrow> 't \<Rightarrow> 't"
  randint :: "nat \<Rightarrow> nat list \<Rightarrow> rng \<Rightarrow> 't \<times> rng"
  rand :: "nat list \<Rightarrow> rng \<Rightarrow> 't \<times> rng"
  randperm :: "nat \<Rightarrow> rng \<Rightarrow> 't \<times> rng"
  randn_like :: "'t \<Rightarrow> rng \<Rightarrow> 't \<times> rng"
  apply_transforms :: "transform list \<Rightarrow> 't \<Rightarrow> rng \<Rightarrow> 't \<times> rng"
  apply_net :: "layer list \<Rightarrow> 't \<Rightarrow> 't"
  call_encoder :: "params \<Rightarrow> 't \<Rightarrow> 't"
  sample_latent :: "real \<times> real \<Rightarrow> 't \<Rightarrow> rng \<Rightarrow> 't \<times> rng"
  call_actor :: "params \<Rightarrow> 't \<Rightarrow> real \<Rightarrow> 't \<times> 't"
  call_critic :: "params \<Rightarrow> 't \<Rightarrow> 't \<Rightarrow> 't \<times> 't"
  call_net :: "params \<Rightarrow> (real list \<times> real list) list \<Rightarrow> 't \<Rightarrow> 't"
  power_iteration :: "params \<Rightarrow> (real list \<times> real list) list \<Rightarrow> (real list \<times> real list) list"
  tn_sample :: "'t \<times> 't \<Rightarrow> real option \<Rightarrow> rng \<Rightarrow> 't \<times> rng"
  tn_log_prob :: "'t \<times> 't \<Rightarrow> 't \<Rightarrow> 't"
  tn_entropy :: "'t \<times> 't \<Rightarrow> 't"
  bernoulli_mode :: "'t \<Rightarrow> 't"
  bernoulli_log_prob :: "'t \<Rightarrow> 't \<Rightarrow> 't"
  autograd_grad :: "'t \<Rightarrow> 't \<Rightarrow> 't \<Rightarrow> 't"
  autograd :: "'t \<Rightarrow> module_id \<Rightarrow> params option"
  add_grad :: "params \<Rightarrow> params \<Rightarrow> params"
  zero_grad_default :: "params option \<Rightarrow> params option"
  adam :: "Adam \<Rightarrow> params \<Rightarrow> params \<Rightarrow> Adam \<times> params"
  new_Linear :: "nat \<Rightarrow> nat \<Rightarrow> layer"
  new_Conv2d :: "nat \<Rightarrow> nat \<Rightarrow> nat \<Rightarrow> nat \<Rightarrow> layer"
  new_Parameter :: "nat \<Rightarrow> nat \<Rightarrow> layer"
  weight_init :: "layer \<Rightarrow> layer"
  new_sn_buffers :: "layer \<Rightarrow> (real list \<times> real list) list"

type_synonym metrics = "string \<rightharpoonup> real"

record 't batch =
  b_obs :: 't
  b_action :: 't
  b_reward :: 't
  b_discount :: 't
  b_next_obs :: 't

text \<open>
  A buffer iterator is the list of batches it has still to yield; \<open>next\<close> on an exhausted
  iterator raises \<open>StopIteration\<close>.
\<close>

definition next_batch :: "'b list \<Rightarrow> error + ('b \<times> 'b list)" where
  "next_batch it = (case it of [] \<Rightarrow> Inl StopIteration | b # bs \<Rightarrow> Inr (b, bs))"

definition to_torch_batch :: "'t torch \<Rightarrow> 't batch \<Rightarrow> 't batch" where
  "to_torch_batch be b =
     \<lparr>b_obs = to_torch be (b_obs b), b_action = to_torch be (b_action b),
      b_reward = to_torch be (b_reward b), b_discount = to_torch be (b_discount b),
      b_next_obs = to_torch be (b_next_obs b)\<rparr>"

subsection \<open>Optimizer steps and backward passes on a module\<close>

definition zero_grad :: "'a nn_module_scheme \<Rightarrow> 'a nn_module_scheme" where
  "zero_grad m = m\<lparr>grad := None\<rparr>"

definition accumulate :: "'t torch \<Rightarrow> params option \<Rightarrow> 'a nn_module_scheme \<Rightarrow> 'a nn_module_scheme" where
  "accumulate be g m =
     (case g of
        None \<Rightarrow> m
      | Some d \<Rightarrow> m\<lparr>grad := Some (case grad m of None \<Rightarrow> d | Some a \<Rightarrow> add_grad be a d)\<rparr>)"

text \<open>
  \<open>opt.step()\<close> for an Adam optimizer that holds the parameters of one module: a parameter
  whose \<open>.grad\<close> is \<open>None\<close> is skipped.
\<close>

definition opt_step :: "'t torch \<Rightarrow> Adam \<Rightarrow> 'a nn_module_scheme \<Rightarrow> Adam \<times> 'a nn_module_scheme" where
  "opt_step be opt m =
     (case grad m of
        None \<Rightarrow> (opt, m)
      | Some g \<Rightarrow> (let (opt', w) = adam be opt (weights m) g in (opt', m\<lparr>weights := w\<rparr>)))"

section \<open>Augmentation\<close>

text \<open>
  \<open>RandomShiftsAug.forward\<close>: unpack the four sizes, assert a square image, draw one
  integer shift per sample and resample the padded image on the shifted grid. Padding,
  the base grid and \<open>grid_sample\<close> are one library operation \<open>pad_and_shift\<close>. The class
  of the contrastive agent's file converts its input with \<open>x.float()\<close> first.
\<close>

definition RandomShiftsAug_forward :: "'t torch \<Rightarrow> nat \<Rightarrow> 't \<Rightarrow> rng \<Rightarrow> error + ('t \<times> rng)" where
  "RandomShiftsAug_forward be pad x rng =
     (case tsize be x of
        [n, c, h, w] \<Rightarrow>
          if h \<noteq> w then Inl AssertionError
          else (let (shift, rng') = randint be (2 * pad + 1) [n, 1, 1, 2] rng
                in Inr (pad_and_shift be pad x shift, rng'))
      | _ \<Rightarrow> Inl ValueError)"

definition RandomShiftsAug_forward_cl :: "'t torch \<Rightarrow> nat \<Rightarrow> 't \<Rightarrow> rng \<Rightarrow> error + ('t \<times> rng)" where
  "RandomShiftsAug_forward_cl be pad x rng = RandomShiftsAug_forward be pad (to_float be x) rng"

text \<open>
  The augmenter objects of the contrastive agent: a \<open>RandomShiftsAug(pad)\<close>, a
  \<open>torch.nn.Sequential\<close> of torchvision transforms, or a \<open>CustomAug\<close> wrapping another
  augmenter, which it applies to each 3-channel frame of the stacked observation.
\<close>

datatype augmenter = RandomShiftsAug nat | Transforms "transform list" | CustomAug augmenter

fun frames_loop :: "('a \<Rightarrow> rng \<Rightarrow> error + ('b \<times> rng)) \<Rightarrow> 'a list \<Rightarrow> rng \<Rightarrow> error + ('b list \<times> rng)" where
  "frames_loop f [] rng = Inr ([], rng)"
| "frames_loop f (x # xs) rng =
     bindE (f x rng) (\<lambda>(y, rng1).
     bindE (frames_loop f xs rng1) (\<lambda>(ys, rng2). Inr (y # ys, rng2)))"

definition cat_frames :: "'t torch \<Rightarrow> 't list \<Rightarrow> error + 't" where
  "cat_frames be fs = (if fs = [] then Inl RuntimeError else Inr (to_float be (cat be fs 1)))"

primrec call_aug :: "'t torch \<Rightarrow> augmenter \<Rightarrow> 't \<Rightarrow> rng \<Rightarrow> error + ('t \<times> rng)" where
  "call_aug be (RandomShiftsAug pad) = (\<lambda>x rng. RandomShiftsAug_forward_cl be pad x rng)"
| "call_aug be (Transforms ts) = (\<lambda>x rng. Inr (apply_transforms be ts x rng))"
| "call_aug be (CustomAug a) = (\<lambda>obs rng.
     case tsize be obs of
       [b, c, h, w] \<Rightarrow>
         if h \<noteq> w then Inl AssertionError
         else bindE (frames_loop (call_aug be a) (map (frame be obs) [0..<c div 3]) rng)
                (\<lambda>(image_aug, rng1). bindE (cat_frames be image_aug) (\<lambda>img. Inr (img, rng1)))
     | _ \<Rightarrow> Inl ValueError)"

section \<open>Module calls inside the training step\<close>

datatype 't d_out = Score 't | BernoulliDist 't

text \<open>
  \<open>Discriminator.forward\<close>. With spectral normalisation and in training mode, the call
  of \<open>self.net\<close> first runs one power iteration, which overwrites the \<open>(u, v)\<close> buffers; in
  evaluation mode the buffers are only read.
\<close>

definition Discriminator_forward :: "'t torch \<Rightarrow> Discriminator \<Rightarrow> 't \<Rightarrow> 't d_out \<times> Discriminator" where
  "Discriminator_forward be D transition =
     (let D1 = (if training D \<and> buffers D \<noteq> []
                then D\<lparr>buffers := power_iteration be (weights D) (buffers D)\<rparr> else D);
          d = call_net be (weights D1) (buffers D1) transition
      in (if dist_kind D = Some ''binary'' then BernoulliDist d else Score d, D1))"

definition attr :: "params \<Rightarrow> string \<Rightarrow> error + layer list" where
  "attr ps name = (case map_of ps name of None \<Rightarrow> Inl AttributeError | Some ls \<Rightarrow> Inr ls)"

definition attr_real :: "real option \<Rightarrow> error + real" where
  "attr_real a = (case a of None \<Rightarrow> Inl AttributeError | Some r \<Rightarrow> Inr r)"

text \<open>Reading a local variable that no executed branch has bound.\<close>

definition read_local :: "'a option \<Rightarrow> error + 'a" where
  "read_local v = (case v of None \<Rightarrow> Inl UnboundLocalError | Some x \<Rightarrow> Inr x)"

text \<open>
  \<open>TransitionModel.__init__\<close>: the trunk, then \<open>mu\<close> (and \<open>sigma\<close> with its bounds) by model
  type. The last branch is the expression statement \<open>NotImplementedError\<close>, which only
  names the exception class: the constructor returns a module with no \<open>mu\<close>.
\<close>

definition TransitionModel_init :: "'t torch \<Rightarrow> nat \<Rightarrow> nat list \<Rightarrow> nat \<Rightarrow> string \<Rightarrow> error + TransitionModel" where
  "TransitionModel_init be feature_dim action_shape hidden_dim mtype =
     (case action_shape of
        [] \<Rightarrow> Inl IndexError
      | a0 # _ \<Rightarrow>
        (let trunk = [new_Linear be (feature_dim + a0) hidden_dim,
                      LayerNorm (replicate hidden_dim 1) (replicate hidden_dim 0), ReLU];
             tm = \<lparr>weights = [(''trunk'', trunk)], buffers = [], grad = None, training = True,
                   model_type = mtype, max_sigma = None, min_sigma = None\<rparr>
         in if mtype = ''deterministic'' then
              Inr (tm\<lparr>weights := weights tm @ [(''mu'', [new_Linear be hidden_dim feature_dim])]\<rparr>)
            else if mtype = ''probabilistic'' then
              Inr (tm\<lparr>weights := weights tm @ [(''mu'', [new_Linear be hidden_dim feature_dim]),
                                                 (''sigma'', [new_Linear be hidden_dim feature_dim])],
                      max_sigma := Some 10, min_sigma := Some (1 / 10000)\<rparr>)
            else Inr tm))"

text \<open>
  \<open>TransitionModel.forward\<close> returns a triple, or Python's \<open>None\<close> when it falls off its
  last branch.
\<close>

definition TransitionModel_forward ::
  "'t torch \<Rightarrow> TransitionModel \<Rightarrow> 't \<Rightarrow> 't \<Rightarrow> rng \<Rightarrow> error + (('t \<times> 't option \<times> 't option) option \<times> rng)" where
  "TransitionModel_forward be tm obs action rng =
     (let obs_action = cat be [obs, action] (- 1) in
      bindE (attr (weights tm) ''trunk'') (\<lambda>trunk.
      let x = apply_net be trunk obs_action in
      bindE (attr (weights tm) ''mu'') (\<lambda>mu_net.
      let mu = apply_net be mu_net x in
      if model_type tm = ''probabilistic'' then
        bindE (attr (weights tm) ''sigma'') (\<lambda>sigma_net.
        let sigma = un be Sigmoid (apply_net be sigma_net x) in
        bindE (attr_real (min_sigma tm)) (\<lambda>lo.
        bindE (attr_real (max_sigma tm)) (\<lambda>hi.
        let sigma = bin be Add (scalar be lo) (bin be Mul (scalar be (hi - lo)) sigma);
            (eps, rng1) = randn_like be sigma rng
        in Inr (Some (mu, Some sigma, Some (bin be Add mu (bin be Mul sigma eps))), rng1))))
      else if model_type tm = ''deterministic'' then Inr (Some (mu, None, None), rng)
      else Inr (None, rng))))"

section \<open>The agents' state\<close>

text \<open>
  The attributes the two agent classes share, and each class's own. An attribute that a
  constructed agent may lack is an \<open>option\<close>. The bisimulation agent's \<open>aug\<close> is the pad of
  its \<open>RandomShiftsAug\<close>.
\<close>

record agent_base =
  device :: string
  critic_target_tau :: real
  update_every_steps :: int
  use_tb :: bool
  num_expl_steps :: int
  stddev_schedule :: string
  stddev_clip :: real
  GAN_loss :: string
  from_dem :: bool
  actor :: nn_module
  critic :: nn_module
  critic_target :: nn_module
  discriminator :: Discriminator
  reward_d_coef :: "real option"
  encoder_opt :: Adam
  actor_opt :: Adam
  critic_opt :: Adam
  discriminator_opt :: Adam
  agent_training :: bool

record LailBisimAgent = agent_base +
  bisim_coef :: real
  transition_model_type :: string
  encoder :: nn_module
  transition_model :: TransitionModel
  reward_decoder :: nn_module
  transition_model_opt :: Adam
  reward_decoder_opt :: Adam
  aug :: nat

record LailClAgent = agent_base +
  check_every_steps :: int
  train_encoder_w_critic :: bool
  CL_data_type :: string
  add_aug_anchor_and_positive :: bool
  apply_aug :: string
  augment1 :: "augmenter option"
  augment2 :: "augmenter option"
  aug_D :: "augmenter option"
  aug_Q :: "augmenter option"
  encoder_cl :: EncoderCL
  CL :: nn_module
  CL_opt :: Adam

section \<open>Methods shared by both agent classes\<close>

text \<open>
  The gradient-penalty methods read and write only \<open>self.discriminator\<close>; their text is
  the same in both files.
\<close>

definition compute_discriminator_grad_penalty_LS ::
  "'t torch \<Rightarrow> 'a agent_base_scheme \<Rightarrow> 't \<Rightarrow> 't \<Rightarrow> real \<Rightarrow> error + ('t \<times> 'a agent_base_scheme)" where
  "compute_discriminator_grad_penalty_LS be ag obs_e next_e lambda =
     (let expert_data = un be RequiresGrad (cat be [obs_e, next_e] (- 1));
          (d, D1) = Discriminator_forward be (discriminator ag) expert_data
      in case d of
           BernoulliDist l \<Rightarrow> Inl AttributeError
         | Score s \<Rightarrow>
             (let os = ones be (tsize be s);
                  g = autograd_grad be s expert_data os;
                  grad_pen = bin be Mul (scalar be lambda)
                    (un be Mean (un be Pow2 (bin be Sub (un be Norm2Dim1 g) (scalar be 0))))
              in Inr (grad_pen, ag\<lparr>discriminator := D1\<rparr>)))"

definition compute_discriminator_grad_penalty_bce ::
  "'t torch \<Rightarrow> 'a agent_base_scheme \<Rightarrow> 't \<Rightarrow> 't \<Rightarrow> 't \<Rightarrow> 't \<Rightarrow> real \<Rightarrow> rng
     \<Rightarrow> error + ('t \<times> 'a agent_base_scheme \<times> rng)" where
  "compute_discriminator_grad_penalty_bce be ag obs_a next_a obs_e next_e lambda rng =
     (let agent_feat = cat be [obs_a, next_a] (- 1);
          (alpha0, rng1) = rand be (take 1 (tsize be agent_feat)) rng;
          alpha = un be Unsqueeze alpha0;
          expert_data = cat be [obs_e, next_e] (- 1);
          disc_penalty_input = un be RequiresGrad
            (bin be Add (bin be Mul alpha agent_feat)
                        (bin be Mul (bin be Sub (scalar be 1) alpha) expert_data));
          (dd, D1) = Discriminator_forward be (discriminator ag) disc_penalty_input
      in case dd of
           Score s \<Rightarrow> Inl AttributeError
         | BernoulliDist l \<Rightarrow>
             (let d = bernoulli_mode be l;
                  os = ones be (tsize be d);
                  g = autograd_grad be d disc_penalty_input os;
                  grad_pen = bin be Mul (scalar be lambda)
                    (un be Mean (un be Pow2 (bin be Sub (un be Norm2Dim1 g) (scalar be 1))))
              in Inr (grad_pen, ag\<lparr>discriminator := D1\<rparr>, rng1)))"

text \<open>
  The branch of \<open>update_discriminator\<close> on the loss family, the same in both files: it
  binds the locals \<open>expert_loss\<close>, \<open>agent_loss\<close>, \<open>grad_pen_loss\<close> and \<open>loss\<close>, or none of
  them when \<open>GAN_loss\<close> is neither \<open>'least-square'\<close> nor \<open>'bce'\<close>. A Bernoulli object has no
  \<open>size()\<close> and a raw score has no \<open>log_prob\<close>.
\<close>

definition discriminator_losses ::
  "'t torch \<Rightarrow> 'a agent_base_scheme \<Rightarrow> 't d_out \<Rightarrow> 't d_out \<Rightarrow> 't \<Rightarrow> 't \<Rightarrow> 't \<Rightarrow> 't \<Rightarrow> rng
     \<Rightarrow> error + (('t \<times> 't \<times> 't \<times> 't) option \<times> 'a agent_base_scheme \<times> rng)" where
  "discriminator_losses be ag1 expert_d agent_d obs_a next_a obs_e next_e rng =
     (if GAN_loss ag1 = ''least-square'' then
        (case (expert_d, agent_d) of
           (Score e, Score a) \<Rightarrow>
             (let expert_loss = bin be MseLoss e (bin be Mul (scalar be 1) (ones be (tsize be e)));
                  agent_loss = bin be MseLoss a (bin be Mul (scalar be (- 1)) (ones be (tsize be a)))
              in bindE (compute_discriminator_grad_penalty_LS be ag1 (detach be obs_e) (detach be next_e) 10)
                   (\<lambda>(grad_pen_loss, ag2).
                      Inr (Some (expert_loss, agent_loss, grad_pen_loss,
                             bin be Add (bin be Mul (scalar be (1 / 2)) (bin be Add expert_loss agent_loss))
                               grad_pen_loss), ag2, rng)))
         | _ \<Rightarrow> Inl AttributeError)
      else if GAN_loss ag1 = ''bce'' then
        (case (expert_d, agent_d) of
           (BernoulliDist e, BernoulliDist a) \<Rightarrow>
             (let expert_loss = un be Mean (bernoulli_log_prob be e (un be OnesLike (bernoulli_mode be e)));
                  agent_loss = un be Mean (bernoulli_log_prob be a (un be ZerosLike (bernoulli_mode be a)))
              in bindE (compute_discriminator_grad_penalty_bce be ag1 (detach be obs_a) (detach be next_a)
                          (detach be obs_e) (detach be next_e) 10 rng)
                   (\<lambda>(grad_pen_loss, ag2, rng1).
                      Inr (Some (expert_loss, agent_loss, grad_pen_loss,
                             bin be Add (un be Neg (bin be Add expert_loss agent_loss)) grad_pen_loss),
                           ag2, rng1)))
         | _ \<Rightarrow> Inl AttributeError)
      else Inr (None, ag1, rng))"

section \<open>The soft update of the critic target\<close>

text \<open>
  Modelled from the spec: \<open>utils.soft_update_params(net, target_net, tau)\<close>, whose source
  file \<open>utils_folder/utils.py\<close> is not among the sources. The spec gives
  \<open>target = (1 - tau) * target + tau * live\<close> for every parameter of a target that is a
  structurally identical copy of the live network; a pair of parameters of different
  shapes is a shape error.
\<close>

definition lerp :: "real \<Rightarrow> real \<Rightarrow> real \<Rightarrow> real" where
  "lerp tau p tp = (1 - tau) * tp + tau * p"

fun lerp_layer :: "real \<Rightarrow> layer \<Rightarrow> layer \<Rightarrow> layer" where
  "lerp_layer tau (Linear w b) (Linear w' b') =
     Linear (map2 (map2 (lerp tau)) w w') (map2 (lerp tau) b b')"
| "lerp_layer tau (Conv2d w b s) (Conv2d w' b' s') =
     Conv2d (map2 (map2 (map2 (map2 (lerp tau)))) w w') (map2 (lerp tau) b b') s'"
| "lerp_layer tau (LayerNorm g b) (LayerNorm g' b') =
     LayerNorm (map2 (lerp tau) g g') (map2 (lerp tau) b b')"
| "lerp_layer tau (Parameter w) (Parameter w') = Parameter (map2 (map2 (lerp tau)) w w')"
| "lerp_layer tau l l' = l'"

fun same_shape_layer :: "layer \<Rightarrow> layer \<Rightarrow> bool" where
  "same_shape_layer (Linear w b) (Linear w' b') =
     (map length w = map length w' \<and> length b = length b')"
| "same_shape_layer (Conv2d w b s) (Conv2d w' b' s') =
     (map (map (map length)) w = map (map (map length)) w' \<and> length b = length b' \<and> s = s')"
| "same_shape_layer (LayerNorm g b) (LayerNorm g' b') =
     (length g = length g' \<and> length b = length b')"
| "same_shape_layer (Parameter w) (Parameter w') = (map length w = map length w')"
| "same_shape_layer ReLU ReLU = True"
| "same_shape_layer Tanh Tanh = True"
| "same_shape_layer l l' = False"

definition same_shape :: "params \<Rightarrow> params \<Rightarrow> bool" where
  "same_shape net target_net =
     list_all2 (\<lambda>(n, ls) (n', ls'). n = n' \<and> list_all2 same_shape_layer ls ls') net target_net"

definition lerp_params :: "real \<Rightarrow> params \<Rightarrow> params \<Rightarrow> params" where
  "lerp_params tau net target_net =
     map2 (\<lambda>(n, ls) (n', ls'). (n', map2 (lerp_layer tau) ls ls')) net target_net"

definition soft_update_params :: "params \<Rightarrow> params \<Rightarrow> real \<Rightarrow> error + params" where
  "soft_update_params net target_net tau =
     (if same_shape net target_net then Inr (lerp_params tau net target_net)
      else Inl RuntimeError)"

section \<open>The bisimulation agent\<close>

text \<open>
  \<open>loss.backward()\<close> adds, for every module of the agent whose parameters the loss reaches,
  the gradient to the module's \<open>.grad\<close> buffers; which modules a loss reaches is the
  library's answer \<open>autograd\<close>.
\<close>

definition LailBisimAgent_backward :: "'t torch \<Rightarrow> 't \<Rightarrow> LailBisimAgent \<Rightarrow> LailBisimAgent" where
  "LailBisimAgent_backward be loss ag =
     ag\<lparr>encoder := accumulate be (autograd be loss ENCODER) (encoder ag),
        actor := accumulate be (autograd be loss ACTOR) (actor ag),
        critic := accumulate be (autograd be loss CRITIC) (critic ag),
        critic_target := accumulate be (autograd be loss CRITIC_TARGET) (critic_target ag),
        discriminator := accumulate be (autograd be loss DISCRIMINATOR) (discriminator ag),
        transition_model := accumulate be (autograd be loss TRANSITION_MODEL) (transition_model ag),
        reward_decoder := accumulate be (autograd be loss REWARD_DECODER) (reward_decoder ag)\<rparr>"

definition LailBisimAgent_train :: "LailBisimAgent \<Rightarrow> bool \<Rightarrow> LailBisimAgent" where
  "LailBisimAgent_train ag tr =
     ag\<lparr>agent_training := tr,
        encoder := (encoder ag)\<lparr>training := tr\<rparr>,
        actor := (actor ag)\<lparr>training := tr\<rparr>,
        critic := (critic ag)\<lparr>training := tr\<rparr>,
        discriminator := (discriminator ag)\<lparr>training := tr\<rparr>\<rparr>"

definition LailBisimAgent_update_critic ::
  "'t torch \<Rightarrow> LailBisimAgent \<Rightarrow> 't \<Rightarrow> 't \<Rightarrow> 't \<Rightarrow> 't \<Rightarrow> 't \<Rightarrow> int \<Rightarrow> rng
     \<Rightarrow> metrics \<times> LailBisimAgent \<times> rng" where
  "LailBisimAgent_update_critic be ag obs action reward discount next_obs step rng =
     (let stddev = schedule be (stddev_schedule ag) step;
          dist = call_actor be (weights (actor ag)) next_obs stddev;
          (next_action, rng1) = tn_sample be dist (Some (stddev_clip ag)) rng;
          (target_Q1, target_Q2) = call_critic be (weights (critic_target ag)) next_obs next_action;
          target_V = bin be Min target_Q1 target_Q2;
          target_Q = detach be (bin be Add reward (bin be Mul discount target_V));
          (Q1, Q2) = call_critic be (weights (critic ag)) obs action;
          critic_loss = bin be Add (bin be MseLoss Q1 target_Q) (bin be MseLoss Q2 target_Q);
          m = (if use_tb ag
               then [''critic_target_q'' \<mapsto> item be (un be Mean target_Q),
                     ''critic_q1'' \<mapsto> item be (un be Mean Q1),
                     ''critic_q2'' \<mapsto> item be (un be Mean Q2),
                     ''critic_loss'' \<mapsto> item be critic_loss]
               else Map.empty);
          ag1 = ag\<lparr>encoder := zero_grad (encoder ag)\<rparr>;
          ag2 = ag1\<lparr>critic := zero_grad (critic ag1)\<rparr>;
          ag3 = LailBisimAgent_backward be critic_loss ag2;
          (copt, c) = opt_step be (critic_opt ag3) (critic ag3);
          ag4 = ag3\<lparr>critic_opt := copt, critic := c\<rparr>;
          (eopt, e) = opt_step be (encoder_opt ag4) (encoder ag4);
          ag5 = ag4\<lparr>encoder_opt := eopt, encoder := e\<rparr>
      in (m, ag5, rng1))"

definition LailBisimAgent_update_actor ::
  "'t torch \<Rightarrow> LailBisimAgent \<Rightarrow> 't \<Rightarrow> int \<Rightarrow> rng \<Rightarrow> metrics \<times> LailBisimAgent \<times> rng" where
  "LailBisimAgent_update_actor be ag obs step rng =
     (let stddev = schedule be (stddev_schedule ag) step;
          dist = call_actor be (weights (actor ag)) obs stddev;
          (action, rng1) = tn_sample be dist (Some (stddev_clip ag)) rng;
          log_prob = un be SumLastKeepdim (tn_log_prob be dist action);
          (Q1, Q2) = call_critic be (weights (critic ag)) obs action;
          Q = bin be Min Q1 Q2;
          actor_loss = un be Neg (un be Mean Q);
          ag1 = ag\<lparr>actor := zero_grad (actor ag)\<rparr>;
          ag2 = LailBisimAgent_backward be actor_loss ag1;
          (aopt, a) = opt_step be (actor_opt ag2) (actor ag2);
          ag3 = ag2\<lparr>actor_opt := aopt, actor := a\<rparr>;
          m = (if use_tb ag
               then [''actor_loss'' \<mapsto> item be actor_loss,
                     ''actor_logprob'' \<mapsto> item be (un be Mean log_prob),
                     ''actor_ent'' \<mapsto> item be (un be Mean (un be SumLast (tn_entropy be dist)))]
               else Map.empty)
      in (m, ag3, rng1))"

text \<open>
  The reward transform of \<open>compute_reward\<close>: Python evaluates \<open>self.reward_d_coef\<close> before
  the argument of \<open>torch.clamp\<close>. A raw score has no usable \<open>mode()\<close>, and a Bernoulli
  object cannot be subtracted from.
\<close>

definition reward_of_score :: "'t torch \<Rightarrow> string \<Rightarrow> real option \<Rightarrow> 't d_out \<Rightarrow> error + 't" where
  "reward_of_score be gan coef d =
     (if gan = ''least-square'' then
        bindE (attr_real coef) (\<lambda>c.
          case d of
            BernoulliDist l \<Rightarrow> Inl TypeError
          | Score s \<Rightarrow>
              Inr (bin be Mul (scalar be c)
                    (un be ClampMin0
                      (bin be Sub (scalar be 1)
                        (bin be Mul (scalar be (1 / 4)) (un be Square (bin be Sub s (scalar be 1))))))))
      else if gan = ''bce'' then
        (case d of
           Score s \<Rightarrow> Inl AttributeError
         | BernoulliDist l \<Rightarrow> Inr (bernoulli_mode be l))
      else Inl UnboundLocalError)"

definition LailBisimAgent_compute_reward ::
  "'t torch \<Rightarrow> LailBisimAgent \<Rightarrow> 't \<Rightarrow> 't \<Rightarrow> rng
     \<Rightarrow> error + ('t \<times> metrics \<times> LailBisimAgent \<times> rng)" where
  "LailBisimAgent_compute_reward be ag obs_a next_a rng =
     bindE (RandomShiftsAug_forward be (aug ag) (to_float be obs_a) rng) (\<lambda>(obs_a1, rng1).
     bindE (if from_dem ag then Inr (next_a, rng1)
            else RandomShiftsAug_forward be (aug ag) (to_float be next_a) rng1) (\<lambda>(next_a1, rng2).
     let obs_a2 = detach be (call_encoder be (weights (encoder ag)) obs_a1);
         next_a2 = (if from_dem ag then next_a1
                    else detach be (call_encoder be (weights (encoder ag)) next_a1));
         ag1 = ag\<lparr>discriminator := (discriminator ag)\<lparr>training := False\<rparr>\<rparr>;
         transition_a = cat be [obs_a2, next_a2] (- 1);
         (d, D1) = Discriminator_forward be (discriminator ag1) transition_a;
         ag2 = ag1\<lparr>discriminator := D1\<rparr>
     in bindE (reward_of_score be (GAN_loss ag2) (reward_d_coef ag2) d) (\<lambda>reward_d.
        let reward = detach be reward_d;
            m = (if use_tb ag2 then [''reward_d'' \<mapsto> item be (un be Mean reward_d)]
                 else Map.empty);
            ag3 = ag2\<lparr>discriminator := (discriminator ag2)\<lparr>training := True\<rparr>\<rparr>
        in Inr (reward, m, ag3, rng2))))"

definition LailBisimAgent_update_discriminator ::
  "'t torch \<Rightarrow> LailBisimAgent \<Rightarrow> 't \<Rightarrow> 't \<Rightarrow> 't \<Rightarrow> 't \<Rightarrow> rng
     \<Rightarrow> error + (metrics \<times> LailBisimAgent \<times> rng)" where
  "LailBisimAgent_update_discriminator be ag obs_a next_a obs_e next_e rng =
     (let transition_a = cat be [obs_a, next_a] (- 1);
          transition_e = cat be [obs_e, next_e] (- 1);
          (agent_d, D1) = Discriminator_forward be (discriminator ag) transition_a;
          (expert_d, D2) = Discriminator_forward be D1 transition_e;
          ag1 = ag\<lparr>discriminator := D2\<rparr>
      in bindE (discriminator_losses be ag1 expert_d agent_d obs_a next_a obs_e next_e rng)
           (\<lambda>(losses, ag2, rng1).
         let ag3 = ag2\<lparr>discriminator := zero_grad (discriminator ag2)\<rparr> in
         bindE (read_local losses) (\<lambda>(expert_loss, agent_loss, grad_pen_loss, loss).
         let ag4 = LailBisimAgent_backward be loss ag3;
             (dopt, D) = opt_step be (discriminator_opt ag4) (discriminator ag4);
             ag5 = ag4\<lparr>discriminator_opt := dopt, discriminator := D\<rparr>;
             m = (if use_tb ag5
                  then [''discriminator_expert_loss'' \<mapsto> item be expert_loss,
                        ''discriminator_agent_loss'' \<mapsto> item be agent_loss,
                        ''discriminator_loss'' \<mapsto> item be loss,
                        ''discriminator_grad_pen'' \<mapsto> item be grad_pen_loss]
                  else Map.empty)
         in Inr (m, ag5, rng1))))"

text \<open>
  \<open>update_encoder\<close>, the joint bisimulation update of encoder, transition model and reward
  decoder. \<open>np.random.permutation\<close> draws from numpy's own generator \<open>np_rng\<close>. A \<open>None\<close>
  returned by the transition model cannot be unpacked, and a \<open>None\<close> sigma or sample cannot
  be indexed or fed to a network.
\<close>

definition size0 :: "'t torch \<Rightarrow> 't \<Rightarrow> error + nat" where
  "size0 be x = (case tsize be x of [] \<Rightarrow> Inl IndexError | n # _ \<Rightarrow> Inr n)"

definition unpack3 :: "('a \<times> 'b \<times> 'c) option \<Rightarrow> error + ('a \<times> 'b \<times> 'c)" where
  "unpack3 r = (case r of None \<Rightarrow> Inl TypeError | Some x \<Rightarrow> Inr x)"

definition not_None :: "'a option \<Rightarrow> error + 'a" where
  "not_None r = (case r of None \<Rightarrow> Inl TypeError | Some x \<Rightarrow> Inr x)"

definition LailBisimAgent_update_encoder ::
  "'t torch \<Rightarrow> LailBisimAgent \<Rightarrow> 't \<Rightarrow> 't \<Rightarrow> 't \<Rightarrow> 't \<Rightarrow> 't \<Rightarrow> rng \<Rightarrow> rng
     \<Rightarrow> error + (metrics \<times> LailBisimAgent \<times> rng \<times> rng)" where
  "LailBisimAgent_update_encoder be ag obs0 action reward discount next_obs0 rng np_rng =
     bindE (RandomShiftsAug_forward be (aug ag) (to_float be obs0) rng) (\<lambda>(obs1, rng1).
     bindE (RandomShiftsAug_forward be (aug ag) (to_float be next_obs0) rng1) (\<lambda>(next_obs1, rng2).
     let obs = call_encoder be (weights (encoder ag)) obs1;
         next_obs = detach be (call_encoder be (weights (encoder ag)) next_obs1) in
     bindE (size0 be obs) (\<lambda>batch_size.
     let (perm, np_rng1) = randperm be batch_size np_rng;
         obs2 = index be obs perm in
     bindE (TransitionModel_forward be (transition_model ag) obs action rng2) (\<lambda>(r1, rng3).
     bindE (unpack3 r1) (\<lambda>(mu1a, sigma1a, _).
     let pred_next_latent_mu1 = detach be mu1a;
         reward2 = detach be (index be reward perm);
         sigma1b = (if transition_model_type ag = ''deterministic''
                    then Some (un be ZerosLike pred_next_latent_mu1)
                    else map_option (detach be) sigma1a);
         pred_next_latent_mu2 = index be pred_next_latent_mu1 perm in
     bindE (not_None sigma1b) (\<lambda>pred_next_latent_sigma1.
     let pred_next_latent_sigma2 = index be pred_next_latent_sigma1 perm;
         z_dist = bin be SmoothL1None obs obs2;
         r_dist = bin be SmoothL1None reward reward2;
         transition_dist = un be Sqrt
           (bin be Add (un be Pow2 (bin be Sub pred_next_latent_mu1 pred_next_latent_mu2))
                       (un be Pow2 (bin be Sub pred_next_latent_sigma1 pred_next_latent_sigma2)));
         bisimilarity = bin be Add r_dist (bin be Mul discount transition_dist);
         encoder_loss = un be Mean (un be Pow2 (bin be Sub z_dist bisimilarity)) in
     bindE (TransitionModel_forward be (transition_model ag) obs action rng3) (\<lambda>(r2, rng4).
     bindE (unpack3 r2) (\<lambda>(pred_next_latent_mu, sigma2a, latent2a).
     let sigma2b = (if transition_model_type ag = ''deterministic''
                    then Some (un be OnesLike pred_next_latent_mu) else sigma2a);
         latent2b = (if transition_model_type ag = ''deterministic''
                     then Some pred_next_latent_mu else latent2a) in
     bindE (not_None sigma2b) (\<lambda>pred_next_latent_sigma.
     let diff = bin be Div (bin be Sub pred_next_latent_mu next_obs) pred_next_latent_sigma;
         model_loss = un be Mean
           (bin be Add (bin be Mul (scalar be (1 / 2)) (un be Pow2 diff))
                       (un be Log pred_next_latent_sigma)) in
     bindE (not_None latent2b) (\<lambda>pred_next_latent.
     bindE (attr (weights (reward_decoder ag)) ''net'') (\<lambda>net.
     let pred_next_reward = apply_net be net pred_next_latent;
         reward_loss = bin be MseLoss pred_next_reward reward;
         ag1 = ag\<lparr>encoder := zero_grad (encoder ag)\<rparr>;
         ag2 = ag1\<lparr>transition_model := zero_grad (transition_model ag1)\<rparr>;
         ag3 = ag2\<lparr>reward_decoder := zero_grad (reward_decoder ag2)\<rparr>;
         total = bin be Add
                   (bin be Add (bin be Mul (scalar be (bisim_coef ag3)) encoder_loss) model_loss)
                   reward_loss;
         ag4 = LailBisimAgent_backward be total ag3;
         (eopt, e) = opt_step be (encoder_opt ag4) (encoder ag4);
         ag5 = ag4\<lparr>encoder_opt := eopt, encoder := e\<rparr>;
         (topt, t) = opt_step be (transition_model_opt ag5) (transition_model ag5);
         ag6 = ag5\<lparr>transition_model_opt := topt, transition_model := t\<rparr>;
         (ropt, r) = opt_step be (reward_decoder_opt ag6) (reward_decoder ag6);
         ag7 = ag6\<lparr>reward_decoder_opt := ropt, reward_decoder := r\<rparr>;
         m = (if use_tb ag7
              then [''encoder_loss'' \<mapsto> item be encoder_loss,
                    ''model_loss'' \<mapsto> item be model_loss,
                    ''reward_loss'' \<mapsto> item be reward_loss]
              else Map.empty)
     in Inr (m, ag7, rng4, np_rng1))))))))))))"

text \<open>
  \<open>LailBisimAgent.update\<close>. \<open>step % 0\<close> raises \<open>ZeroDivisionError\<close>; Python's \<open>%\<close> on
  integers is the floored remainder, as \<open>mod\<close> on \<open>int\<close> is.
\<close>

definition LailBisimAgent_update ::
  "'t torch \<Rightarrow> LailBisimAgent \<Rightarrow> 't batch list \<Rightarrow> 't batch list \<Rightarrow> int \<Rightarrow> rng
     \<Rightarrow> error + (metrics \<times> LailBisimAgent \<times> 't batch list \<times> 't batch list \<times> rng)" where
  "LailBisimAgent_update be ag replay_iter replay_iter_expert step rng =
     (if update_every_steps ag = 0 then Inl ZeroDivisionError
      else if step mod update_every_steps ag \<noteq> 0
      then Inr (Map.empty, ag, replay_iter, replay_iter_expert, rng)
      else
        bindE (next_batch replay_iter) (\<lambda>(batch0, replay_iter1).
        let b = to_torch_batch be batch0;
            obs = b_obs b; action = b_action b; reward_a = b_reward b;
            discount = b_discount b; next_obs = b_next_obs b in
        bindE (next_batch replay_iter_expert) (\<lambda>(batch_expert, replay_iter_expert1).
        let e = to_torch_batch be batch_expert;
            obs_e_raw = b_obs e; action_e = b_action e; next_obs_e_raw = b_next_obs e in
        bindE (RandomShiftsAug_forward be (aug ag) (to_float be obs_e_raw) rng) (\<lambda>(obs_e1, rng1).
        bindE (RandomShiftsAug_forward be (aug ag) (to_float be next_obs_e_raw) rng1) (\<lambda>(next_obs_e1, rng2).
        bindE (RandomShiftsAug_forward be (aug ag) (to_float be obs) rng2) (\<lambda>(obs_a1, rng3).
        bindE (RandomShiftsAug_forward be (aug ag) (to_float be next_obs) rng3) (\<lambda>(next_obs_a1, rng4).
        let obs_e = detach be (call_encoder be (weights (encoder ag)) obs_e1);
            next_obs_e = detach be (call_encoder be (weights (encoder ag)) next_obs_e1);
            obs_a = detach be (call_encoder be (weights (encoder ag)) obs_a1);
            next_obs_a = detach be (call_encoder be (weights (encoder ag)) next_obs_a1) in
        bindE (if from_dem ag
               then LailBisimAgent_update_discriminator be ag obs_a action obs_e action_e rng4
               else LailBisimAgent_update_discriminator be ag obs_a next_obs_a obs_e next_obs_e rng4)
          (\<lambda>(metrics1, ag1, rng5).
        bindE (if from_dem ag1
               then LailBisimAgent_compute_reward be ag1 obs action rng5
               else LailBisimAgent_compute_reward be ag1 obs next_obs rng5)
          (\<lambda>(reward, metrics_r, ag2, rng6).
        let metrics2 = metrics1 ++ metrics_r in
        bindE (RandomShiftsAug_forward be (aug ag2) (to_float be obs) rng6) (\<lambda>(obs_q1, rng7).
        bindE (RandomShiftsAug_forward be (aug ag2) (to_float be next_obs) rng7) (\<lambda>(next_obs_q1, rng8).
        let obs_q = call_encoder be (weights (encoder ag2)) obs_q1;
            next_obs_q = detach be (call_encoder be (weights (encoder ag2)) next_obs_q1);
            metrics3 = (if use_tb ag2
                        then metrics2(''batch_reward'' \<mapsto> item be (un be Mean reward_a))
                        else metrics2);
            (mc, ag3, rng9) =
               LailBisimAgent_update_critic be ag2 obs_q action reward discount next_obs_q step rng8;
            metrics4 = metrics3 ++ mc;
            (ma, ag4, rng10) = LailBisimAgent_update_actor be ag3 (detach be obs_q) step rng9;
            metrics5 = metrics4 ++ ma in
        bindE (soft_update_params (weights (critic ag4)) (weights (critic_target ag4))
                 (critic_target_tau ag4)) (\<lambda>w.
        Inr (metrics5, ag4\<lparr>critic_target := (critic_target ag4)\<lparr>weights := w\<rparr>\<rparr>,
             replay_iter1, replay_iter_expert1, rng10)))))))))))))"

section \<open>The contrastive agent\<close>

definition EncoderCL_call :: "'t torch \<Rightarrow> EncoderCL \<Rightarrow> 't \<Rightarrow> rng \<Rightarrow> 't \<times> rng" where
  "EncoderCL_call be enc x rng =
     (let z = call_encoder be (weights enc) x
      in if stochastic enc then sample_latent be (log_std_bounds enc) z rng else (z, rng))"

text \<open>
  \<open>CL.compute_logits\<close>: \<open>W z_pos\<^sup>T\<close>, then \<open>z_a (W z_pos\<^sup>T)\<close>, then the row maximum is
  subtracted.
\<close>

definition CL_compute_logits :: "'t torch \<Rightarrow> nn_module \<Rightarrow> 't \<Rightarrow> 't \<Rightarrow> error + 't" where
  "CL_compute_logits be cl z_a z_pos =
     bindE (attr (weights cl) ''W'') (\<lambda>W.
     let Wz = apply_net be W (un be Transpose z_pos);
         logits = bin be MatMul z_a Wz
     in Inr (bin be Sub logits (un be RowMaxCol logits)))"

definition py_mod :: "int \<Rightarrow> int \<Rightarrow> error + int" where
  "py_mod a b = (if b = 0 then Inl ZeroDivisionError else Inr (a mod b))"

definition call_attr_aug :: "'t torch \<Rightarrow> augmenter option \<Rightarrow> 't \<Rightarrow> rng \<Rightarrow> error + ('t \<times> rng)" where
  "call_attr_aug be a x rng =
     (case a of None \<Rightarrow> Inl AttributeError | Some f \<Rightarrow> call_aug be f x rng)"

definition LailClAgent_backward :: "'t torch \<Rightarrow> 't \<Rightarrow> LailClAgent \<Rightarrow> LailClAgent" where
  "LailClAgent_backward be loss ag =
     ag\<lparr>encoder_cl := accumulate be (autograd be loss ENCODER) (encoder_cl ag),
        actor := accumulate be (autograd be loss ACTOR) (actor ag),
        critic := accumulate be (autograd be loss CRITIC) (critic ag),
        critic_target := accumulate be (autograd be loss CRITIC_TARGET) (critic_target ag),
        discriminator := accumulate be (autograd be loss DISCRIMINATOR) (discriminator ag),
        CL := accumulate be (autograd be loss CL_MODULE) (CL ag)\<rparr>"

definition LailClAgent_train :: "LailClAgent \<Rightarrow> bool \<Rightarrow> LailClAgent" where
  "LailClAgent_train ag tr =
     ag\<lparr>agent_training := tr,
        encoder_cl := (encoder_cl ag)\<lparr>training := tr\<rparr>,
        actor := (actor ag)\<lparr>training := tr\<rparr>,
        critic := (critic ag)\<lparr>training := tr\<rparr>,
        discriminator := (discriminator ag)\<lparr>training := tr\<rparr>,
        CL := (CL ag)\<lparr>training := tr\<rparr>\<rparr>"

text \<open>
  \<open>LailClAgent.augment\<close>: the two views of a stacked observation, frame by frame. The
  attributes \<open>augment1\<close> and \<open>augment2\<close> are read inside the loop.
\<close>

definition LailClAgent_augment ::
  "'t torch \<Rightarrow> LailClAgent \<Rightarrow> 't \<Rightarrow> rng \<Rightarrow> error + ('t \<times> 't \<times> rng)" where
  "LailClAgent_augment be ag obs rng =
     (case tsize be obs of
        [b, c, h, w] \<Rightarrow>
          if h \<noteq> w then Inl AssertionError
          else if add_aug_anchor_and_positive ag then
            bindE (frames_loop
                     (\<lambda>fr r. bindE (call_attr_aug be (augment1 ag) fr r) (\<lambda>(frame_one, r1).
                              bindE (call_attr_aug be (augment2 ag) fr r1) (\<lambda>(frame_two, r2).
                              Inr ((frame_one, frame_two), r2))))
                     (map (frame be obs) [0..<c div 3]) rng) (\<lambda>(pairs, rng1).
            bindE (cat_frames be (map fst pairs)) (\<lambda>image_one.
            bindE (cat_frames be (map snd pairs)) (\<lambda>image_two.
            Inr (image_one, image_two, rng1))))
          else
            bindE (frames_loop (call_attr_aug be (augment2 ag))
                     (map (frame be obs) [0..<c div 3]) rng) (\<lambda>(fs, rng1).
            bindE (cat_frames be fs) (\<lambda>image_two.
            Inr (to_float be obs, image_two, rng1)))
      | _ \<Rightarrow> Inl ValueError)"

text \<open>
  The image dumps \<open>check_aug\<close> and \<open>check_aug_CL\<close> write files, which are outside the
  agent's state; what they leave behind in the process is the draw of \<open>torch.randperm\<close>.
\<close>

definition LailClAgent_check_aug :: "'t torch \<Rightarrow> 't \<Rightarrow> 't \<Rightarrow> 't \<Rightarrow> 't \<Rightarrow> rng \<Rightarrow> error + rng" where
  "LailClAgent_check_aug be obs next_obs obs_e next_obs_e rng =
     (let obs2 = cat be [bin be Div obs (scalar be 255), bin be Div next_obs (scalar be 255)] 0
      in bindE (size0 be obs2) (\<lambda>n. Inr (snd (randperm be n rng))))"

definition LailClAgent_check_aug_CL :: "'t torch \<Rightarrow> 't \<Rightarrow> 't \<Rightarrow> rng \<Rightarrow> error + rng" where
  "LailClAgent_check_aug_CL be img1 img2 rng =
     bindE (size0 be (bin be Div img1 (scalar be 255))) (\<lambda>n. Inr (snd (randperm be n rng)))"

definition LailClAgent_update_critic ::
  "'t torch \<Rightarrow> LailClAgent \<Rightarrow> 't \<Rightarrow> 't \<Rightarrow> 't \<Rightarrow> 't \<Rightarrow> 't \<Rightarrow> int \<Rightarrow> rng
     \<Rightarrow> metrics \<times> LailClAgent \<times> rng" where
  "LailClAgent_update_critic be ag obs action reward discount next_obs step rng =
     (let stddev = schedule be (stddev_schedule ag) step;
          dist = call_actor be (weights (actor ag)) next_obs stddev;
          (next_action, rng1) = tn_sample be dist (Some (stddev_clip ag)) rng;
          (target_Q1, target_Q2) = call_critic be (weights (critic_target ag)) next_obs next_action;
          target_V = bin be Min target_Q1 target_Q2;
          target_Q = detach be (bin be Add reward (bin be Mul discount target_V));
          (Q1, Q2) = call_critic be (weights (critic ag)) obs action;
          critic_loss = bin be Add (bin be MseLoss Q1 target_Q) (bin be MseLoss Q2 target_Q);
          m = (if use_tb ag
               then [''critic_target_q'' \<mapsto> item be (un be Mean target_Q),
                     ''critic_q1'' \<mapsto> item be (un be Mean Q1),
                     ''critic_q2'' \<mapsto> item be (un be Mean Q2),
                     ''critic_loss'' \<mapsto> item be critic_loss]
               else Map.empty)
      in if train_encoder_w_critic ag then
           (let ag1 = ag\<lparr>encoder_cl := zero_grad (encoder_cl ag)\<rparr>;
                ag2 = ag1\<lparr>critic := zero_grad (critic ag1)\<rparr>;
                ag3 = LailClAgent_backward be critic_loss ag2;
                (copt, c) = opt_step be (critic_opt ag3) (critic ag3);
                ag4 = ag3\<lparr>critic_opt := copt, critic := c\<rparr>;
                (eopt, e) = opt_step be (encoder_opt ag4) (encoder_cl ag4);
                ag5 = ag4\<lparr>encoder_opt := eopt, encoder_cl := e\<rparr>
            in (m, ag5, rng1))
         else
           (let ag1 = ag\<lparr>critic := zero_grad (critic ag)\<rparr>;
                ag2 = LailClAgent_backward be critic_loss ag1;
                (copt, c) = opt_step be (critic_opt ag2) (critic ag2);
                ag3 = ag2\<lparr>critic_opt := copt, critic := c\<rparr>
            in (m, ag3, rng1)))"

definition LailClAgent_update_actor ::
  "'t torch \<Rightarrow> LailClAgent \<Rightarrow> 't \<Rightarrow> int \<Rightarrow> rng \<Rightarrow> metrics \<times> LailClAgent \<times> rng" where
  "LailClAgent_update_actor be ag obs step rng =
     (let stddev = schedule be (stddev_schedule ag) step;
          dist = call_actor be (weights (actor ag)) obs stddev;
          (action, rng1) = tn_sample be dist (Some (stddev_clip ag)) rng;
          log_prob = un be SumLastKeepdim (tn_log_prob be dist action);
          (Q1, Q2) = call_critic be (weights (critic ag)) obs action;
          Q = bin be Min Q1 Q2;
          actor_loss = un be Neg (un be Mean Q);
          ag1 = ag\<lparr>actor := zero_grad (actor ag)\<rparr>;
          ag2 = LailClAgent_backward be actor_loss ag1;
          (aopt, a) = opt_step be (actor_opt ag2) (actor ag2);
          ag3 = ag2\<lparr>actor_opt := aopt, actor := a\<rparr>;
          m = (if use_tb ag
               then [''actor_loss'' \<mapsto> item be actor_loss,
                     ''actor_logprob'' \<mapsto> item be (un be Mean log_prob),
                     ''actor_ent'' \<mapsto> item be (un be Mean (un be SumLast (tn_entropy be dist)))]
               else Map.empty)
      in (m, ag3, rng1))"

definition LailClAgent_compute_reward ::
  "'t torch \<Rightarrow> LailClAgent \<Rightarrow> 't \<Rightarrow> 't \<Rightarrow> rng
     \<Rightarrow> error + ('t \<times> metrics \<times> LailClAgent \<times> rng)" where
  "LailClAgent_compute_reward be ag obs_a next_a rng =
     bindE (call_attr_aug be (aug_D ag) obs_a rng) (\<lambda>(obs_a1, rng1).
     bindE (if from_dem ag then Inr (next_a, rng1)
            else call_attr_aug be (aug_D ag) next_a rng1) (\<lambda>(next_a1, rng2).
     let (obs_a2, rng3) = EncoderCL_call be (encoder_cl ag) obs_a1 rng2;
         (next_a2, rng4) = (if from_dem ag then (next_a1, rng3)
                            else EncoderCL_call be (encoder_cl ag) next_a1 rng3);
         ag1 = ag\<lparr>discriminator := (discriminator ag)\<lparr>training := False\<rparr>\<rparr>;
         transition_a = cat be [detach be obs_a2, if from_dem ag then next_a2 else detach be next_a2] (- 1);
         (d, D1) = Discriminator_forward be (discriminator ag1) transition_a;
         ag2 = ag1\<lparr>discriminator := D1\<rparr>
     in bindE (reward_of_score be (GAN_loss ag2) (reward_d_coef ag2) d) (\<lambda>reward_d.
        let reward = detach be reward_d;
            m = (if use_tb ag2 then [''reward_d'' \<mapsto> item be (un be Mean reward_d)]
                 else Map.empty);
            ag3 = ag2\<lparr>discriminator := (discriminator ag2)\<lparr>training := True\<rparr>\<rparr>
        in Inr (reward, m, ag3, rng4))))"

definition LailClAgent_update_discriminator ::
  "'t torch \<Rightarrow> LailClAgent \<Rightarrow> 't \<Rightarrow> 't \<Rightarrow> 't \<Rightarrow> 't \<Rightarrow> rng
     \<Rightarrow> error + (metrics \<times> LailClAgent \<times> rng)" where
  "LailClAgent_update_discriminator be ag obs_a next_a obs_e next_e rng =
     (let transition_a = cat be [obs_a, next_a] (- 1);
          transition_e = cat be [obs_e, next_e] (- 1);
          (agent_d, D1) = Discriminator_forward be (discriminator ag) transition_a;
          (expert_d, D2) = Discriminator_forward be D1 transition_e;
          ag1 = ag\<lparr>discriminator := D2\<rparr>
      in bindE (discriminator_losses be ag1 expert_d agent_d obs_a next_a obs_e next_e rng)
           (\<lambda>(losses, ag2, rng1).
         let ag3 = ag2\<lparr>discriminator := zero_grad (discriminator ag2)\<rparr> in
         bindE (read_local losses) (\<lambda>(expert_loss, agent_loss, grad_pen_loss, loss).
         let ag4 = LailClAgent_backward be loss ag3;
             (dopt, D) = opt_step be (discriminator_opt ag4) (discriminator ag4);
             ag5 = ag4\<lparr>discriminator_opt := dopt, discriminator := D\<rparr>;
             m = (if use_tb ag5
                  then [''discriminator_expert_loss'' \<mapsto> item be expert_loss,
                        ''discriminator_agent_loss'' \<mapsto> item be agent_loss,
                        ''discriminator_loss'' \<mapsto> item be loss,
                        ''discriminator_grad_pen'' \<mapsto> item be grad_pen_loss]
                  else Map.empty)
         in Inr (m, ag5, rng1))))"

definition zero_grad_dflt :: "'t torch \<Rightarrow> 'a nn_module_scheme \<Rightarrow> 'a nn_module_scheme" where
  "zero_grad_dflt be m = m\<lparr>grad := zero_grad_default be (grad m)\<rparr>"

text \<open>
  \<open>update_CL\<close>. The first block binds \<open>anchor_to_aug\<close> (and, for \<open>'all'\<close>, \<open>anchors\<close> and
  \<open>positives\<close>) by data type; its last branch is the expression statement
  \<open>NotImplementedError\<close>, after which \<open>anchor_to_aug\<close> is unbound.
\<close>

definition LailClAgent_update_CL ::
  "'t torch \<Rightarrow> LailClAgent \<Rightarrow> 't \<Rightarrow> 't \<Rightarrow> 't \<Rightarrow> 't \<Rightarrow> int \<Rightarrow> int \<Rightarrow> rng
     \<Rightarrow> error + (metrics \<times> LailClAgent \<times> rng)" where
  "LailClAgent_update_CL be ag obs obs_e_raw obs_random obs_e_raw_random check_every step rng =
     bindE (if CL_data_type ag = ''agent'' then Inr (Some obs, None, rng)
            else if CL_data_type ag = ''expert'' then Inr (Some (cat be [obs, obs_e_raw] 0), None, rng)
            else if CL_data_type ag = ''all'' then
              bindE (size0 be obs_random) (\<lambda>n.
                let (rand_idx, rng1) = randperm be n rng
                in Inr (Some (cat be [obs, obs_e_raw] 0),
                        Some (cat be [obs_random, obs_e_raw_random] 0,
                              cat be [index be obs_e_raw_random rand_idx,
                                      index be obs_random rand_idx] 0),
                        rng1))
            else Inr (None, None, rng)) (\<lambda>(anchor_to_aug0, ap, rng1).
     bindE (case anchor_to_aug0 of None \<Rightarrow> Inl UnboundLocalError | Some a \<Rightarrow> Inr a) (\<lambda>anchor_to_aug.
     bindE (LailClAgent_augment be ag anchor_to_aug rng1) (\<lambda>(image_one, image_two, rng2).
     bindE (py_mod step check_every) (\<lambda>r.
     bindE (if r = 0 then LailClAgent_check_aug_CL be image_one image_two rng2 else Inr rng2) (\<lambda>rng3.
     bindE (if CL_data_type ag = ''all'' then
              (case ap of
                 None \<Rightarrow> Inl UnboundLocalError
               | Some (anchors0, positives0) \<Rightarrow>
                   Inr (cat be [to_float be anchors0, image_one] 0,
                        cat be [to_float be positives0, image_two] 0))
            else Inr (image_one, image_two)) (\<lambda>(anchors, positives).
     let (z_anchor, rng4) = EncoderCL_call be (encoder_cl ag) anchors rng3;
         (z_pos0, rng5) = EncoderCL_call be (encoder_cl ag) positives rng4;
         z_pos = detach be z_pos0 in
     bindE (CL_compute_logits be (CL ag) z_anchor z_pos) (\<lambda>logits.
     bindE (size0 be logits) (\<lambda>n.
     let labels = arange be n;
         loss = bin be CrossEntropy logits labels;
         ag1 = ag\<lparr>encoder_cl := zero_grad_dflt be (encoder_cl ag)\<rparr>;
         ag2 = ag1\<lparr>CL := zero_grad_dflt be (CL ag1)\<rparr>;
         ag3 = LailClAgent_backward be loss ag2;
         (eopt, e) = opt_step be (encoder_opt ag3) (encoder_cl ag3);
         ag4 = ag3\<lparr>encoder_opt := eopt, encoder_cl := e\<rparr>;
         (clopt, c) = opt_step be (CL_opt ag4) (CL ag4);
         ag5 = ag4\<lparr>CL_opt := clopt, CL := c\<rparr>;
         m = (if use_tb ag5 then [''CL_loss'' \<mapsto> item be loss] else Map.empty)
     in Inr (m, ag5, rng5)))))))))"

definition LailClAgent_update ::
  "'t torch \<Rightarrow> LailClAgent \<Rightarrow> 't batch list \<Rightarrow> 't batch list \<Rightarrow> 't batch list \<Rightarrow> 't batch list
     \<Rightarrow> int \<Rightarrow> rng
     \<Rightarrow> error + (metrics \<times> LailClAgent \<times> 't batch list \<times> 't batch list \<times> 't batch list
                  \<times> 't batch list \<times> rng)" where
  "LailClAgent_update be ag replay_iter replay_iter_expert replay_iter_random
       replay_iter_expert_random step rng =
     (if update_every_steps ag = 0 then Inl ZeroDivisionError
      else if step mod update_every_steps ag \<noteq> 0
      then Inr (Map.empty, ag, replay_iter, replay_iter_expert, replay_iter_random,
                replay_iter_expert_random, rng)
      else
        bindE (next_batch replay_iter) (\<lambda>(batch0, replay_iter1).
        let b = to_torch_batch be batch0;
            obs = b_obs b; action = b_action b; reward_a = b_reward b;
            discount = b_discount b; next_obs = b_next_obs b in
        bindE (next_batch replay_iter_expert) (\<lambda>(batch_expert, replay_iter_expert1).
        let e = to_torch_batch be batch_expert;
            obs_e_raw = b_obs e; action_e = b_action e; next_obs_e_raw = b_next_obs e in
        bindE (next_batch replay_iter_random) (\<lambda>(batch_agent_random, replay_iter_random1).
        let ar = to_torch_batch be batch_agent_random;
            obs_random = b_obs ar; next_obs_random = b_next_obs ar in
        bindE (next_batch replay_iter_expert_random) (\<lambda>(batch_expert_random, replay_iter_expert_random1).
        let er = to_torch_batch be batch_expert_random;
            obs_e_raw_random = b_obs er; next_obs_e_raw_random = b_next_obs er in
        bindE (py_mod step (check_every_steps ag)) (\<lambda>r1.
        bindE (if r1 = 0
               then LailClAgent_check_aug be (to_float be obs_random) (to_float be next_obs_random)
                      (to_float be obs_e_raw_random) (to_float be next_obs_e_raw_random) rng
               else Inr rng) (\<lambda>rng0.
        bindE (LailClAgent_update_CL be ag obs obs_e_raw obs_random obs_e_raw_random
                 (check_every_steps ag) step rng0) (\<lambda>(metrics0, ag0, rng1).
        bindE (call_attr_aug be (aug_D ag0) obs_e_raw rng1) (\<lambda>(obs_e, rng2).
        bindE (call_attr_aug be (aug_D ag0) next_obs_e_raw rng2) (\<lambda>(next_obs_e, rng3).
        bindE (call_attr_aug be (aug_D ag0) obs rng3) (\<lambda>(obs_a, rng4).
        bindE (call_attr_aug be (aug_D ag0) next_obs rng4) (\<lambda>(next_obs_a, rng5).
        bindE (py_mod step (check_every_steps ag0)) (\<lambda>r2.
        bindE (if r2 = 0 then LailClAgent_check_aug be obs_a next_obs_a obs_e next_obs_e rng5
               else Inr rng5) (\<lambda>rng6.
        let (z_e0, rng7) = EncoderCL_call be (encoder_cl ag0) obs_e rng6;
            (next_z_e0, rng8) = EncoderCL_call be (encoder_cl ag0) next_obs_e rng7;
            (z_a0, rng9) = EncoderCL_call be (encoder_cl ag0) obs_a rng8;
            (next_z_a0, rng10) = EncoderCL_call be (encoder_cl ag0) next_obs_a rng9;
            z_e = detach be z_e0; next_z_e = detach be next_z_e0;
            z_a = detach be z_a0; next_z_a = detach be next_z_a0 in
        bindE (if from_dem ag0
               then LailClAgent_update_discriminator be ag0 z_a action z_e action_e rng10
               else LailClAgent_update_discriminator be ag0 z_a next_z_a z_e next_z_e rng10)
          (\<lambda>(metrics_d, ag1, rng11).
        let metrics1 = metrics0 ++ metrics_d in
        bindE (if from_dem ag1
               then LailClAgent_compute_reward be ag1 obs action rng11
               else LailClAgent_compute_reward be ag1 obs next_obs rng11)
          (\<lambda>(reward, metrics_r, ag2, rng12).
        let metrics2 = metrics1 ++ metrics_r in
        bindE (call_attr_aug be (aug_Q ag2) obs rng12) (\<lambda>(obs_q1, rng13).
        bindE (call_attr_aug be (aug_Q ag2) next_obs rng13) (\<lambda>(next_obs_q1, rng14).
        let (obs_q, rng15) = EncoderCL_call be (encoder_cl ag2) obs_q1 rng14;
            (next_obs_q0, rng16) = EncoderCL_call be (encoder_cl ag2) next_obs_q1 rng15;
            next_obs_q = detach be next_obs_q0;
            metrics3 = (if use_tb ag2
                        then metrics2(''batch_reward'' \<mapsto> item be (un be Mean reward_a))
                        else metrics2);
            (mc, ag3, rng17) =
               LailClAgent_update_critic be ag2 obs_q action reward discount next_obs_q step rng16;
            metrics4 = metrics3 ++ mc;
            (ma, ag4, rng18) = LailClAgent_update_actor be ag3 (detach be obs_q) step rng17;
            metrics5 = metrics4 ++ ma in
        bindE (soft_update_params (weights (critic ag4)) (weights (critic_target ag4))
                 (critic_target_tau ag4)) (\<lambda>w.
        Inr (metrics5, ag4\<lparr>critic_target := (critic_target ag4)\<lparr>weights := w\<rparr>\<rparr>,
             replay_iter1, replay_iter_expert1, replay_iter_random1, replay_iter_expert_random1,
             rng18))))))))))))))))))))"

section \<open>Constructors\<close>

text \<open>
  \<open>nn.Linear\<close>, \<open>nn.Conv2d\<close> and \<open>nn.Parameter(torch.rand(...))\<close> come from the library with
  their initial values; \<open>self.apply(utils.weight_init)\<close> re-initialises every layer of a
  module; a fresh \<open>nn.LayerNorm\<close> has gain one and bias zero; a fresh module is in training
  mode with no gradients.
\<close>

definition new_module :: "'t torch \<Rightarrow> params \<Rightarrow> nn_module" where
  "new_module be ps =
     \<lparr>weights = map (\<lambda>(n, ls). (n, map (weight_init be) ls)) ps,
      buffers = [], grad = None, training = True\<rparr>"

definition new_LayerNorm :: "nat \<Rightarrow> layer" where
  "new_LayerNorm n = LayerNorm (replicate n 1) (replicate n 0)"

definition conv_stack :: "'t torch \<Rightarrow> nat \<Rightarrow> layer list" where
  "conv_stack be c =
     [new_Conv2d be c 32 3 2, ReLU, new_Conv2d be 32 32 3 1, ReLU,
      new_Conv2d be 32 32 3 1, ReLU, new_Conv2d be 32 32 3 1, ReLU]"

definition Encoder_init :: "'t torch \<Rightarrow> nat list \<Rightarrow> nat \<Rightarrow> error + nn_module" where
  "Encoder_init be obs_shape feature_dim =
     (if length obs_shape \<noteq> 3 then Inl AssertionError
      else (let repr_dim = (if last obs_shape = 84 then 32 * 35 * 35
                            else if last obs_shape = 64 then 32 * 25 * 25
                            else 32 * 35 * 35)
            in Inr (new_module be
                 [(''convnet'', conv_stack be (hd obs_shape)),
                  (''trunk'', [new_Linear be repr_dim feature_dim, new_LayerNorm feature_dim, Tanh])])))"

text \<open>
  The contrastive agent's encoder sets \<open>repr_dim\<close> only for images of side 84 or 64; for
  any other side the read of \<open>self.repr_dim\<close> fails.
\<close>

definition EncoderCL_init :: "'t torch \<Rightarrow> nat list \<Rightarrow> nat \<Rightarrow> bool \<Rightarrow> real \<times> real \<Rightarrow> error + EncoderCL" where
  "EncoderCL_init be obs_shape feature_dim stoch bounds =
     (if length obs_shape \<noteq> 3 then Inl AssertionError
      else bindE (if last obs_shape = 84 then Inr (32 * 35 * 35)
                  else if last obs_shape = 64 then Inr (32 * 25 * 25)
                  else Inl AttributeError) (\<lambda>repr_dim.
           let out_dim = (if stoch then 2 * feature_dim else feature_dim);
               m = new_module be
                     [(''convnet'', conv_stack be (hd obs_shape)),
                      (''trunk'', [new_Linear be repr_dim out_dim, new_LayerNorm out_dim, Tanh])]
           in Inr (nn_module.extend m \<lparr>stochastic = stoch, log_std_bounds = bounds\<rparr>)))"

definition mlp3 :: "'t torch \<Rightarrow> nat \<Rightarrow> nat \<Rightarrow> nat \<Rightarrow> layer list" where
  "mlp3 be i h out =
     [new_Linear be i h, ReLU, new_Linear be h h, ReLU, new_Linear be h out]"

definition Actor_init :: "'t torch \<Rightarrow> nat list \<Rightarrow> nat \<Rightarrow> nat \<Rightarrow> error + nn_module" where
  "Actor_init be action_shape feature_dim hidden_dim =
     (case action_shape of
        [] \<Rightarrow> Inl IndexError
      | a0 # _ \<Rightarrow> Inr (new_module be [(''policy'', mlp3 be feature_dim hidden_dim a0)]))"

definition Critic_init :: "'t torch \<Rightarrow> nat list \<Rightarrow> nat \<Rightarrow> nat \<Rightarrow> error + nn_module" where
  "Critic_init be action_shape feature_dim hidden_dim =
     (case action_shape of
        [] \<Rightarrow> Inl IndexError
      | a0 # _ \<Rightarrow> Inr (new_module be [(''Q1'', mlp3 be (feature_dim + a0) hidden_dim 1),
                                       (''Q2'', mlp3 be (feature_dim + a0) hidden_dim 1)]))"

definition is_Linear :: "layer \<Rightarrow> bool" where
  "is_Linear l = (case l of Linear w b \<Rightarrow> True | _ \<Rightarrow> False)"

definition Discriminator_init :: "'t torch \<Rightarrow> nat \<Rightarrow> nat \<Rightarrow> bool \<Rightarrow> string option \<Rightarrow> Discriminator" where
  "Discriminator_init be input_net_dim hidden_dim spectral_norm_bool dk =
     (let net = mlp3 be input_net_dim hidden_dim 1;
          m = new_module be [(''net'', net)];
          m1 = (if spectral_norm_bool
                then m\<lparr>buffers := concat (map (new_sn_buffers be) (filter is_Linear net))\<rparr>
                else m)
      in nn_module.extend m1 \<lparr>dist_kind = dk\<rparr>)"

definition RewardDecoder_init :: "'t torch \<Rightarrow> nat \<Rightarrow> nat \<Rightarrow> nn_module" where
  "RewardDecoder_init be feature_dim hidden_dim =
     \<lparr>weights = [(''net'', [new_Linear be feature_dim hidden_dim, new_LayerNorm hidden_dim, ReLU,
                             new_Linear be hidden_dim 1])],
      buffers = [], grad = None, training = True\<rparr>"

definition CL_init :: "'t torch \<Rightarrow> nat \<Rightarrow> nn_module" where
  "CL_init be feature_dim =
     \<lparr>weights = [(''W'', [new_Parameter be feature_dim feature_dim])],
      buffers = [], grad = None, training = True\<rparr>"

definition new_Adam :: "real \<Rightarrow> Adam" where
  "new_Adam rate = \<lparr>lr = rate, opt_state = None\<rparr>"

text \<open>
  The discriminator block of both constructors. Its last branch is the expression
  statement \<open>NotImplementedError\<close>: nothing is assigned, and the later read of
  \<open>self.discriminator\<close> for its optimizer fails.
\<close>

definition make_discriminator ::
  "'t torch \<Rightarrow> bool \<Rightarrow> string \<Rightarrow> nat \<Rightarrow> nat list \<Rightarrow> nat \<Rightarrow> bool \<Rightarrow> real
     \<Rightarrow> error + (Discriminator option \<times> real option)" where
  "make_discriminator be fd gan feature_dim action_shape hidden_dim spectral_norm_bool coef =
     (if fd then
        (if gan = ''least-square'' then
           (case action_shape of [] \<Rightarrow> Inl IndexError
            | a0 # _ \<Rightarrow> Inr (Some (Discriminator_init be (feature_dim + a0) hidden_dim spectral_norm_bool None),
                             Some coef))
         else if gan = ''bce'' then
           (case action_shape of [] \<Rightarrow> Inl IndexError
            | a0 # _ \<Rightarrow> Inr (Some (Discriminator_init be (feature_dim + a0) hidden_dim spectral_norm_bool
                                     (Some ''binary'')), None))
         else Inr (None, None))
      else
        (if gan = ''least-square'' then
           Inr (Some (Discriminator_init be (2 * feature_dim) hidden_dim spectral_norm_bool None), Some coef)
         else if gan = ''bce'' then
           Inr (Some (Discriminator_init be (2 * feature_dim) hidden_dim spectral_norm_bool (Some ''binary'')),
                None)
         else Inr (None, None)))"

definition get_attr :: "'a option \<Rightarrow> error + 'a" where
  "get_attr a = (case a of None \<Rightarrow> Inl AttributeError | Some x \<Rightarrow> Inr x)"

definition LailBisimAgent_init ::
  "'t torch \<Rightarrow> nat list \<Rightarrow> nat list \<Rightarrow> string \<Rightarrow> real \<Rightarrow> nat \<Rightarrow> nat \<Rightarrow> real \<Rightarrow> int \<Rightarrow> int
     \<Rightarrow> string \<Rightarrow> real \<Rightarrow> bool \<Rightarrow> real \<Rightarrow> string \<Rightarrow> real \<Rightarrow> real \<Rightarrow> bool \<Rightarrow> string \<Rightarrow> bool
     \<Rightarrow> error + LailBisimAgent" where
  "LailBisimAgent_init be obs_shape action_shape dev rate feature_dim hidden_dim tau expl_steps
       every_steps sched clip tb coef tm_type rd_coef discriminator_lr spectral_norm_bool gan fd =
     bindE (Encoder_init be obs_shape feature_dim) (\<lambda>enc.
     bindE (Actor_init be action_shape feature_dim hidden_dim) (\<lambda>act.
     bindE (Critic_init be action_shape feature_dim hidden_dim) (\<lambda>crit.
     bindE (Critic_init be action_shape feature_dim hidden_dim) (\<lambda>crit_t0.
     let crit_t = crit_t0\<lparr>weights := weights crit\<rparr> in
     bindE (TransitionModel_init be feature_dim action_shape hidden_dim tm_type) (\<lambda>tm.
     let rd = RewardDecoder_init be feature_dim hidden_dim in
     bindE (make_discriminator be fd gan feature_dim action_shape hidden_dim spectral_norm_bool rd_coef)
       (\<lambda>(disc, rdc).
     bindE (get_attr disc) (\<lambda>D.
     let ag = \<lparr>device = dev, critic_target_tau = tau, update_every_steps = every_steps,
               use_tb = tb, num_expl_steps = expl_steps, stddev_schedule = sched,
               stddev_clip = clip, GAN_loss = gan, from_dem = fd,
               actor = act, critic = crit, critic_target = crit_t, discriminator = D,
               reward_d_coef = rdc,
               encoder_opt = new_Adam rate, actor_opt = new_Adam rate, critic_opt = new_Adam rate,
               discriminator_opt = new_Adam discriminator_lr, agent_training = True,
               bisim_coef = coef, transition_model_type = tm_type, encoder = enc,
               transition_model = tm, reward_decoder = rd,
               transition_model_opt = new_Adam rate, reward_decoder_opt = new_Adam rate,
               aug = 4\<rparr>;
         ag1 = LailBisimAgent_train ag True
     in Inr (ag1\<lparr>critic_target := (critic_target ag1)\<lparr>training := True\<rparr>\<rparr>))))))))"

text \<open>
  Modelled from the spec: the helper \<open>default\<close> of \<open>utils_folder/byol_pytorch.py\<close>, which is
  not among the sources. By the spec's routing table the contrastive use-site of every mode
  but \<open>nowhere\<close> receives the photometric stack, so \<open>default(None, d)\<close> is \<open>d\<close>.
\<close>

definition default_val :: "'a option \<Rightarrow> 'a \<Rightarrow> 'a" where
  "default_val v d = (case v of None \<Rightarrow> d | Some x \<Rightarrow> x)"

text \<open>
  \<open>select_aug_type\<close>. The first block binds the local \<open>DEFAULT_AUG\<close> by augmentation type,
  its last branch being the expression statement \<open>NotImplementedError\<close>; the second block
  assigns the four augmenter attributes by routing mode, reading \<open>DEFAULT_AUG\<close> in every
  mode but \<open>nowhere\<close>, and its last branch is again \<open>NotImplementedError\<close>. The result is the
  four attributes \<open>(augment1, augment2, aug_D, aug_Q)\<close>.
\<close>

definition DEFAULT_AUG_of :: "string \<Rightarrow> nat list \<Rightarrow> error + transform list option" where
  "DEFAULT_AUG_of aug_type obs_shape =
     (if aug_type = ''brightness'' then
        Inr (Some [ColorJitter (Range 1 4) NoJitter NoJitter NoJitter])
      else if aug_type = ''color'' then
        Inr (Some [ColorJitter (Amount (8 / 10)) (Amount (8 / 10)) (Amount (8 / 10)) (Amount (2 / 10)),
                   RandomGrayscale (2 / 10),
                   RandomApply (GaussianBlur (3, 3) (1, 2)) (1 / 10),
                   RandomInvert (2 / 10),
                   RandomApply RandomChannelPermutation (1 / 10)])
      else if aug_type = ''full'' then
        (if obs_shape = [] then Inl IndexError
         else Inr (Some [ColorJitter (Amount (8 / 10)) (Amount (8 / 10)) (Amount (8 / 10)) (Amount (2 / 10)),
                         RandomGrayscale (2 / 10),
                         RandomHorizontalFlip (1 / 10),
                         RandomVerticalFlip (1 / 10),
                         RandomApply (GaussianBlur (3, 3) (1, 2)) (1 / 10),
                         RandomInvert (2 / 10),
                         RandomResizedCrop (last obs_shape, last obs_shape) (8 / 10, 1) (9 / 10, 11 / 10)]))
      else Inr None)"

definition select_aug_type ::
  "string \<Rightarrow> string \<Rightarrow> nat list
     \<Rightarrow> error + (augmenter option \<times> augmenter option \<times> augmenter option \<times> augmenter option)" where
  "select_aug_type aug_type routing obs_shape =
     bindE (DEFAULT_AUG_of aug_type obs_shape) (\<lambda>DEFAULT_AUG.
     if routing = ''everywhere'' then
       bindE (read_local DEFAULT_AUG) (\<lambda>d.
       let a1 = default_val None (Transforms d); a2 = default_val None a1
       in Inr (Some a1, Some a2, Some (CustomAug a1), Some (CustomAug a1)))
     else if routing = ''nowhere'' then
       Inr (Some (RandomShiftsAug 4), Some (RandomShiftsAug 4),
            Some (RandomShiftsAug 4), Some (RandomShiftsAug 4))
     else if routing = ''CL-only'' then
       bindE (read_local DEFAULT_AUG) (\<lambda>d.
       let a1 = default_val None (Transforms d); a2 = default_val None a1
       in Inr (Some a1, Some a2, Some (RandomShiftsAug 4), Some (RandomShiftsAug 4)))
     else if routing = ''CL-D'' then
       bindE (read_local DEFAULT_AUG) (\<lambda>d.
       let a1 = default_val None (Transforms d); a2 = default_val None a1
       in Inr (Some a1, Some a2, Some (CustomAug a1), Some (RandomShiftsAug 4)))
     else if routing = ''CL-Q'' then
       bindE (read_local DEFAULT_AUG) (\<lambda>d.
       let a1 = default_val None (Transforms d); a2 = default_val None a1
       in Inr (Some a1, Some a2, Some (RandomShiftsAug 4), Some (CustomAug a1)))
     else Inr (None, None, None, None))"

text \<open>
  \<open>LailClAgent.__init__\<close>: \<open>self.apply_aug\<close> is stored, \<open>select_aug_type\<close> is called with the
  constructor's arguments, and only then the depth/segmentation flags overwrite
  \<open>self.apply_aug\<close>.
\<close>

definition LailClAgent_init ::
  "'t torch \<Rightarrow> nat list \<Rightarrow> nat list \<Rightarrow> string \<Rightarrow> real \<Rightarrow> nat \<Rightarrow> nat \<Rightarrow> real \<Rightarrow> int \<Rightarrow> int
     \<Rightarrow> string \<Rightarrow> real \<Rightarrow> bool \<Rightarrow> real \<Rightarrow> real \<Rightarrow> bool \<Rightarrow> int \<Rightarrow> real \<times> real \<Rightarrow> string \<Rightarrow> bool
     \<Rightarrow> bool \<Rightarrow> string \<Rightarrow> bool \<Rightarrow> bool \<Rightarrow> string \<Rightarrow> string \<Rightarrow> bool \<Rightarrow> bool
     \<Rightarrow> error + LailClAgent" where
  "LailClAgent_init be obs_shape action_shape dev rate feature_dim hidden_dim tau expl_steps
       every_steps sched clip tb rd_coef discriminator_lr spectral_norm_bool check_steps bounds
       gan stochastic_encoder encoder_w_critic data_type fd add_aug aug_type routing
       depth_flag segm_flag =
     bindE (select_aug_type aug_type routing obs_shape) (\<lambda>(a1, a2, aD, aQ).
     let routing1 = (if depth_flag \<or> segm_flag then ''nowhere'' else routing) in
     bindE (EncoderCL_init be obs_shape feature_dim stochastic_encoder bounds) (\<lambda>enc.
     bindE (Actor_init be action_shape feature_dim hidden_dim) (\<lambda>act.
     bindE (Critic_init be action_shape feature_dim hidden_dim) (\<lambda>crit.
     bindE (Critic_init be action_shape feature_dim hidden_dim) (\<lambda>crit_t0.
     let crit_t = crit_t0\<lparr>weights := weights crit\<rparr>;
         cl = CL_init be feature_dim in
     bindE (make_discriminator be fd gan feature_dim action_shape hidden_dim spectral_norm_bool rd_coef)
       (\<lambda>(disc, rdc).
     bindE (get_attr disc) (\<lambda>D.
     let ag = \<lparr>device = dev, critic_target_tau = tau, update_every_steps = every_steps,
               use_tb = tb, num_expl_steps = expl_steps, stddev_schedule = sched,
               stddev_clip = clip, GAN_loss = gan, from_dem = fd,
               actor = act, critic = crit, critic_target = crit_t, discriminator = D,
               reward_d_coef = rdc,
               encoder_opt = new_Adam rate, actor_opt = new_Adam rate, critic_opt = new_Adam rate,
               discriminator_opt = new_Adam discriminator_lr, agent_training = True,
               check_every_steps = check_steps, train_encoder_w_critic = encoder_w_critic,
               CL_data_type = data_type, add_aug_anchor_and_positive = add_aug,
               apply_aug = routing1, augment1 = a1, augment2 = a2, aug_D = aD, aug_Q = aQ,
               encoder_cl = enc, CL = cl, CL_opt = new_Adam rate\<rparr>;
         ag1 = LailClAgent_train ag True
     in Inr (ag1\<lparr>critic_target := (critic_target ag1)\<lparr>training := True\<rparr>\<rparr>))))))))"

section \<open>Inference on values: the networks' forward passes and \<open>act\<close>\<close>

text \<open>
  Outside the training step a tensor is its values: an image is indexed \<open>[channel][row][col]\<close>,
  a batch of images is a list of images, a batch of vectors a list of vectors. A shape that
  the library would refuse is a \<open>RuntimeError\<close>.
\<close>

type_synonym image = "real list list list"

fun mapE :: "('a \<Rightarrow> error + 'b) \<Rightarrow> 'a list \<Rightarrow> error + 'b list" where
  "mapE f [] = Inr []"
| "mapE f (x # xs) = bindE (f x) (\<lambda>y. bindE (mapE f xs) (\<lambda>ys. Inr (y # ys)))"

fun rows_with_rng :: "('a \<Rightarrow> rng \<Rightarrow> 'b \<times> rng) \<Rightarrow> 'a list \<Rightarrow> rng \<Rightarrow> 'b list \<times> rng" where
  "rows_with_rng f [] rng = ([], rng)"
| "rows_with_rng f (x # xs) rng =
     (let (y, rng1) = f x rng; (ys, rng2) = rows_with_rng f xs rng1 in (y # ys, rng2))"

definition randn :: "rng \<Rightarrow> nat \<Rightarrow> real list \<times> rng" where
  "randn rng n = (map (normals rng) [pos rng ..< pos rng + n], rng\<lparr>pos := pos rng + n\<rparr>)"

definition rand_uniform :: "rng \<Rightarrow> nat \<Rightarrow> real list \<times> rng" where
  "rand_uniform rng n = (map (uniforms rng) [pos rng ..< pos rng + n], rng\<lparr>pos := pos rng + n\<rparr>)"

definition is_image :: "nat \<Rightarrow> nat \<Rightarrow> nat \<Rightarrow> image \<Rightarrow> bool" where
  "is_image c h w x =
     (length x = c \<and> list_all (\<lambda>ch. length ch = h \<and> list_all (\<lambda>r. length r = w) ch) x)"

definition conv_at :: "image \<Rightarrow> image \<Rightarrow> nat \<Rightarrow> nat \<Rightarrow> nat \<Rightarrow> nat \<Rightarrow> real" where
  "conv_at f x i j kh kw =
     (\<Sum>c\<leftarrow>[0..<length f]. \<Sum>di\<leftarrow>[0..<kh]. \<Sum>dj\<leftarrow>[0..<kw].
        f ! c ! di ! dj * x ! c ! (i + di) ! (j + dj))"

text \<open>
  \<open>nn.Conv2d\<close> without padding on one image: output pixel \<open>(i, j)\<close> of filter \<open>f\<close> is the bias
  plus the sum over the window at \<open>(s i, s j)\<close>.
\<close>

definition conv2d :: "image list \<Rightarrow> real list \<Rightarrow> nat \<Rightarrow> image \<Rightarrow> error + image" where
  "conv2d w b s x =
     (if w = [] \<or> hd w = [] \<or> hd (hd w) = [] \<or> x = [] \<or> hd x = [] then Inl RuntimeError
      else (let kh = length (hd (hd w)); kw = length (hd (hd (hd w)));
                c = length (hd w); h = length (hd x); wd = length (hd (hd x))
            in if s = 0 \<or> length b \<noteq> length w \<or> \<not> list_all (is_image c kh kw) w
                  \<or> \<not> is_image c h wd x \<or> h < kh \<or> wd < kw
               then Inl RuntimeError
               else Inr (map2 (\<lambda>f bo.
                           map (\<lambda>i. map (\<lambda>j. bo + conv_at f x (s * i) (s * j) kh kw)
                                        [0..<(wd - kw) div s + 1])
                               [0..<(h - kh) div s + 1]) w b)))"

text \<open>
  The convolutional stack of an encoder holds \<open>Conv2d\<close> and \<open>ReLU\<close> layers; the trunk and
  the multi-layer perceptrons hold \<open>Linear\<close>, \<open>ReLU\<close>, \<open>LayerNorm\<close> (with the library's
  \<open>eps = 1e-5\<close>) and \<open>Tanh\<close>.
\<close>

fun conv_sequential :: "layer list \<Rightarrow> image \<Rightarrow> error + image" where
  "conv_sequential [] x = Inr x"
| "conv_sequential (Conv2d w b s # ls) x = bindE (conv2d w b s x) (conv_sequential ls)"
| "conv_sequential (ReLU # ls) x = conv_sequential ls (map (map (map (max 0))) x)"
| "conv_sequential (l # ls) x = Inl RuntimeError"

definition dot :: "real list \<Rightarrow> real list \<Rightarrow> real" where
  "dot xs ys = sum_list (map2 (*) xs ys)"

definition layer_norm :: "real list \<Rightarrow> real list \<Rightarrow> real list \<Rightarrow> real list" where
  "layer_norm g b x =
     (let n = real (length x);
          mean = sum_list x / n;
          var = sum_list (map (\<lambda>v. (v - mean)\<^sup>2) x) / n
      in map (\<lambda>(v, gi, bi). (v - mean) / sqrt (var + 1 / 100000) * gi + bi) (zip x (zip g b)))"

fun sequential :: "layer list \<Rightarrow> real list \<Rightarrow> error + real list" where
  "sequential [] x = Inr x"
| "sequential (Linear w b # ls) x =
     (if length b = length w \<and> list_all (\<lambda>r. length r = length x) w
      then sequential ls (map2 (\<lambda>r bi. dot r x + bi) w b)
      else Inl RuntimeError)"
| "sequential (ReLU # ls) x = sequential ls (map (max 0) x)"
| "sequential (Tanh # ls) x = sequential ls (map tanh x)"
| "sequential (LayerNorm g b # ls) x =
     (if length g = length x \<and> length b = length x
      then sequential ls (layer_norm g b x)
      else Inl RuntimeError)"
| "sequential (l # ls) x = Inl RuntimeError"

text \<open>
  The part both \<open>Encoder.forward\<close> methods share: scale the pixels, run the convolutional
  stack, flatten each sample, run the trunk. A batch of size zero cannot be flattened.
\<close>

definition encode_rows :: "params \<Rightarrow> image list \<Rightarrow> error + real list list" where
  "encode_rows ps obs =
     bindE (attr ps ''convnet'') (\<lambda>convnet.
     bindE (attr ps ''trunk'') (\<lambda>trunk.
     if obs = [] then Inl RuntimeError
     else mapE (\<lambda>img.
            bindE (conv_sequential convnet (map (map (map (\<lambda>v. v / 255 - 1 / 2))) img))
              (\<lambda>h. sequential trunk (concat (concat h)))) obs))"

definition Encoder_forward :: "nn_module \<Rightarrow> image list \<Rightarrow> error + real list list" where
  "Encoder_forward enc obs = encode_rows (weights enc) obs"

text \<open>
  The stochastic branch of the contrastive agent's \<open>Encoder.forward\<close>, on one row of the
  trunk's output: \<open>chunk(2)\<close> splits off the first half (rounded up) as the mean, the
  log-std is squashed into the bounds, and \<open>Normal(mu, std).sample()\<close> is the mean plus the
  std times a standard normal draw. A row too short to give two chunks cannot be unpacked;
  a std of one element is broadcast.
\<close>

definition sample_row :: "real \<times> real \<Rightarrow> real list \<Rightarrow> rng \<Rightarrow> error + (real list \<times> rng)" where
  "sample_row bounds z rng =
     (let cs = (length z + 1) div 2; mu = take cs z; ls0 = drop cs z
      in if ls0 = [] then Inl ValueError
         else (let log_std_min = fst bounds; log_std_max = snd bounds;
                   log_std = map (\<lambda>v. log_std_min + (1 / 2) * (log_std_max - log_std_min) * (tanh v + 1)) ls0;
                   std0 = map exp log_std
               in if length std0 \<noteq> length mu \<and> length std0 \<noteq> 1 then Inl RuntimeError
                  else (let std = (if length std0 = length mu then std0
                                   else replicate (length mu) (hd std0));
                            (eps, rng1) = randn rng (length mu)
                        in Inr (map (\<lambda>(m, sd, e). m + sd * e) (zip mu (zip std eps)), rng1))))"

definition EncoderCL_forward :: "EncoderCL \<Rightarrow> image list \<Rightarrow> rng \<Rightarrow> error + (real list list \<times> rng)" where
  "EncoderCL_forward enc obs rng =
     bindE (encode_rows (weights enc) obs) (\<lambda>z.
     if stochastic enc then frames_loop (sample_row (log_std_bounds enc)) z rng
     else Inr (z, rng))"

definition Actor_forward :: "nn_module \<Rightarrow> real list list \<Rightarrow> real \<Rightarrow> error + (real list list \<times> real list list)" where
  "Actor_forward act obs std =
     bindE (attr (weights act) ''policy'') (\<lambda>policy.
     bindE (mapE (sequential policy) obs) (\<lambda>mu0.
     let mu = map (map tanh) mu0
     in Inr (mu, map (map (\<lambda>m. 1 * std)) mu)))"

text \<open>
  Modelled from the spec: \<open>utils.TruncatedNormal\<close>, whose source file is not among the
  sources. \<open>sample(clip)\<close> draws one standard normal per action dimension, scales it by the
  std, clips the noise to \<open>[-clip, clip]\<close> when a clip is given, adds the mean and bounds
  the result to \<open>[-1, 1]\<close>; \<open>mean\<close> is the network's mean.
\<close>

definition tn_sample_row :: "real option \<Rightarrow> real list \<times> real list \<Rightarrow> rng \<Rightarrow> real list \<times> rng" where
  "tn_sample_row clip d rng =
     (let (eps, rng1) = randn rng (length (fst d))
      in (map (\<lambda>(m, sd, e).
                 let noise = sd * e;
                     noise1 = (case clip of None \<Rightarrow> noise | Some c \<Rightarrow> max (- c) (min c noise))
                 in max (- 1) (min 1 (m + noise1)))
              (zip (fst d) (zip (snd d) eps)), rng1))"

definition TruncatedNormal_sample ::
  "real list list \<times> real list list \<Rightarrow> real option \<Rightarrow> rng \<Rightarrow> real list list \<times> rng" where
  "TruncatedNormal_sample d clip rng = rows_with_rng (tn_sample_row clip) (zip (fst d) (snd d)) rng"

text \<open>
  \<open>Tensor.uniform_(lo, hi)\<close> overwrites every element with \<open>lo + (hi - lo) u\<close> for a fresh
  uniform draw \<open>u\<close>.
\<close>

definition uniform_row :: "real \<Rightarrow> real \<Rightarrow> real list \<Rightarrow> rng \<Rightarrow> real list \<times> rng" where
  "uniform_row lo hi row rng =
     (let (us, rng1) = rand_uniform rng (length row) in (map (\<lambda>u. lo + (hi - lo) * u) us, rng1))"

definition uniform_fill :: "real \<Rightarrow> real \<Rightarrow> real list list \<Rightarrow> rng \<Rightarrow> real list list \<times> rng" where
  "uniform_fill lo hi t rng = rows_with_rng (uniform_row lo hi) t rng"

definition first_row :: "'a list \<Rightarrow> error + 'a" where
  "first_row t = (case t of [] \<Rightarrow> Inl IndexError | r # _ \<Rightarrow> Inr r)"

text \<open>
  \<open>act\<close> of both agents: encode the single observation, build the policy distribution, take
  its mean in evaluation mode and a sample otherwise, and during the first
  \<open>num_expl_steps\<close> steps overwrite the sample in place by \<open>uniform_(-1, 1)\<close>. The lines
  after the encoder call are the same in both files and are \<open>act_tail\<close> here.
\<close>

definition act_tail ::
  "'t torch \<Rightarrow> 'a agent_base_scheme \<Rightarrow> real list list \<Rightarrow> int \<Rightarrow> bool \<Rightarrow> rng
     \<Rightarrow> error + (real list \<times> rng)" where
  "act_tail be ag z step eval_mode rng =
     (let stddev = schedule be (stddev_schedule ag) step in
      bindE (Actor_forward (actor ag) z stddev) (\<lambda>d.
      let (action, rng1) =
            (if eval_mode then (fst d, rng)
             else (let (a, r) = TruncatedNormal_sample d None rng
                   in if step < num_expl_steps ag then uniform_fill (- 1) 1 a r else (a, r)))
      in bindE (first_row action) (\<lambda>a0. Inr (a0, rng1))))"

definition LailBisimAgent_act ::
  "'t torch \<Rightarrow> LailBisimAgent \<Rightarrow> image \<Rightarrow> int \<Rightarrow> bool \<Rightarrow> rng \<Rightarrow> error + (real list \<times> rng)" where
  "LailBisimAgent_act be ag obs step eval_mode rng =
     bindE (Encoder_forward (encoder ag) [obs]) (\<lambda>z. act_tail be ag z step eval_mode rng)"

definition LailClAgent_act ::
  "'t torch \<Rightarrow> LailClAgent \<Rightarrow> image \<Rightarrow> int \<Rightarrow> bool \<Rightarrow> rng \<Rightarrow> error + (real list \<times> rng)" where
  "LailClAgent_act be ag obs step eval_mode rng =
     bindE (EncoderCL_forward (encoder_cl ag) [obs] rng) (\<lambda>(z, rng1).
       act_tail be ag z step eval_mode rng1)"

definition action_dim :: "nn_module \<Rightarrow> nat option" where
  "action_dim a =
     (case map_of (weights a) ''policy'' of
        None \<Rightarrow> None
      | Some p \<Rightarrow> (if p = [] then None
                   else (case last p of Linear w b \<Rightarrow> Some (length w) | _ \<Rightarrow> None)))"

section \<open>Concrete inputs\<close>

text \<open>
  A tensor library that tracks shapes only: a tensor is its shape, every scalar read is
  zero, no loss reaches any parameter, and fresh layers are zero-initialised.
\<close>

definition torch0 :: "nat list torch" where
  "torch0 =
     \<lparr>schedule = (\<lambda>s t. 1 / 5), to_torch = (\<lambda>x. x), to_float = (\<lambda>x. x), tsize = (\<lambda>x. x),
      detach = (\<lambda>x. x), item = (\<lambda>x. 0), un = (\<lambda>f x. x), bin = (\<lambda>f x y. x),
      scalar = (\<lambda>r. []), ones = (\<lambda>sh. sh), arange = (\<lambda>n. [n]),
      cat = (\<lambda>xs d. concat (take 1 xs)), index = (\<lambda>x i. x), frame = (\<lambda>x i. x),
      pad_and_shift = (\<lambda>p x sh. x),
      randint = (\<lambda>n sh r. (sh, r\<lparr>pos := pos r + 1\<rparr>)),
      rand = (\<lambda>sh r. (sh, r\<lparr>pos := pos r + 1\<rparr>)),
      randperm = (\<lambda>n r. ([n], r\<lparr>pos := pos r + 1\<rparr>)),
      randn_like = (\<lambda>x r. (x, r\<lparr>pos := pos r + 1\<rparr>)),
      apply_transforms = (\<lambda>ts x r. (x, r\<lparr>pos := pos r + 1\<rparr>)),
      apply_net = (\<lambda>ls x. x), call_encoder = (\<lambda>ps x. take 1 x @ [50]),
      sample_latent = (\<lambda>b x r. (x, r\<lparr>pos := pos r + 1\<rparr>)),
      call_actor = (\<lambda>ps x s. (take 1 x @ [4], take 1 x @ [4])),
      call_critic = (\<lambda>ps x a. (take 1 x @ [1], take 1 x @ [1])),
      call_net = (\<lambda>ps bs x. take 1 x @ [1]),
      power_iteration = (\<lambda>ps bs. bs),
      tn_sample = (\<lambda>d c r. (fst d, r\<lparr>pos := pos r + 1\<rparr>)),
      tn_log_prob = (\<lambda>d x. x), tn_entropy = (\<lambda>d. fst d),
      bernoulli_mode = (\<lambda>l. l), bernoulli_log_prob = (\<lambda>l x. x),
      autograd_grad = (\<lambda>y x g. x), autograd = (\<lambda>l m. None), add_grad = (\<lambda>a b. a),
      zero_grad_default = (\<lambda>g. None), adam = (\<lambda>opt w g. (opt, w)),
      new_Linear = (\<lambda>i out. Linear (replicate out (replicate i 0)) (replicate out 0)),
      new_Conv2d = (\<lambda>i out k s.
         Conv2d (replicate out (replicate i (replicate k (replicate k 0)))) (replicate out 0) s),
      new_Parameter = (\<lambda>n m. Parameter (replicate n (replicate m 0))),
      weight_init = (\<lambda>l. l), new_sn_buffers = (\<lambda>l. [([], [])])\<rparr>"

definition rng0 :: rng where
  "rng0 = \<lparr>uniforms = (\<lambda>i. 1 / 2), normals = (\<lambda>i. 2), pos = 0\<rparr>"

definition batch0 :: "nat list batch" where
  "batch0 = \<lparr>b_obs = [32, 9, 84, 84], b_action = [32, 4], b_reward = [32, 1],
             b_discount = [32, 1], b_next_obs = [32, 9, 84, 84]\<rparr>"

definition obs0 :: image where
  "obs0 = replicate 9 (replicate 84 (replicate 84 0))"

text \<open>
  The bisimulation agent that its constructor builds for observations of shape
  \<open>(9, 84, 84)\<close>, actions of shape \<open>(4,)\<close>, \<open>feature_dim = 50\<close>, \<open>hidden_dim = 1024\<close>,
  \<open>update_every_steps = 2\<close>, logging on, the bce discriminator and the given
  transition-model type.
\<close>

definition bisim0 :: "string \<Rightarrow> LailBisimAgent" where
  "bisim0 tm =
     \<lparr>device = ''cpu'', critic_target_tau = 1 / 100, update_every_steps = 2, use_tb = True,
      num_expl_steps = 2000, stddev_schedule = ''linear(1.0,0.1,500000)'', stddev_clip = 3 / 10,
      GAN_loss = ''bce'', from_dem = False,
      actor = new_module torch0 [(''policy'', mlp3 torch0 50 1024 4)],
      critic = new_module torch0 [(''Q1'', mlp3 torch0 54 1024 1), (''Q2'', mlp3 torch0 54 1024 1)],
      critic_target = new_module torch0 [(''Q1'', mlp3 torch0 54 1024 1), (''Q2'', mlp3 torch0 54 1024 1)],
      discriminator = Discriminator_init torch0 100 1024 False (Some ''binary''),
      reward_d_coef = None,
      encoder_opt = new_Adam (1 / 10000), actor_opt = new_Adam (1 / 10000),
      critic_opt = new_Adam (1 / 10000), discriminator_opt = new_Adam (1 / 10000),
      agent_training = True, bisim_coef = 1 / 2, transition_model_type = tm,
      encoder = new_module torch0 [(''convnet'', conv_stack torch0 9),
                  (''trunk'', [new_Linear torch0 (32 * 35 * 35) 50, new_LayerNorm 50, Tanh])],
      transition_model =
        \<lparr>weights = (''trunk'', [new_Linear torch0 54 1024, new_LayerNorm 1024, ReLU]) #
                    (if tm = ''deterministic'' then [(''mu'', [new_Linear torch0 1024 50])] else []),
         buffers = [], grad = None, training = True, model_type = tm,
         max_sigma = None, min_sigma = None\<rparr>,
      reward_decoder = RewardDecoder_init torch0 50 1024,
      transition_model_opt = new_Adam (1 / 10000), reward_decoder_opt = new_Adam (1 / 10000),
      aug = 4\<rparr>"

text \<open>
  The contrastive agent its constructor builds for the same sizes, with the given
  stored routing mode, the given four augmenters and the given encoder mode.
\<close>

definition cl0 ::
  "string \<Rightarrow> augmenter option \<times> augmenter option \<times> augmenter option \<times> augmenter option \<Rightarrow> bool
     \<Rightarrow> LailClAgent" where
  "cl0 routing augs stoch =
     \<lparr>device = ''cpu'', critic_target_tau = 1 / 100, update_every_steps = 2, use_tb = True,
      num_expl_steps = 2000, stddev_schedule = ''linear(1.0,0.1,500000)'', stddev_clip = 3 / 10,
      GAN_loss = ''bce'', from_dem = False,
      actor = new_module torch0 [(''policy'', mlp3 torch0 50 1024 4)],
      critic = new_module torch0 [(''Q1'', mlp3 torch0 54 1024 1), (''Q2'', mlp3 torch0 54 1024 1)],
      critic_target = new_module torch0 [(''Q1'', mlp3 torch0 54 1024 1), (''Q2'', mlp3 torch0 54 1024 1)],
      discriminator = Discriminator_init torch0 100 1024 False (Some ''binary''),
      reward_d_coef = None,
      encoder_opt = new_Adam (1 / 10000), actor_opt = new_Adam (1 / 10000),
      critic_opt = new_Adam (1 / 10000), discriminator_opt = new_Adam (1 / 10000),
      agent_training = True,
      check_every_steps = 5000, train_encoder_w_critic = True, CL_data_type = ''all'',
      add_aug_anchor_and_positive = False, apply_aug = routing,
      augment1 = fst augs, augment2 = fst (snd augs), aug_D = fst (snd (snd augs)),
      aug_Q = snd (snd (snd augs)),
      encoder_cl = nn_module.extend
         (new_module torch0 [(''convnet'', conv_stack torch0 9),
            (''trunk'', [new_Linear torch0 (32 * 35 * 35) (if stoch then 100 else 50),
                         new_LayerNorm (if stoch then 100 else 50), Tanh])])
         \<lparr>stochastic = stoch, log_std_bounds = (- 2, 2)\<rparr>,
      CL = CL_init torch0 50, CL_opt = new_Adam (1 / 10000)\<rparr>"

definition shifts4 :: "augmenter option \<times> augmenter option \<times> augmenter option \<times> augmenter option" where
  "shifts4 = (Some (RandomShiftsAug 4), Some (RandomShiftsAug 4),
              Some (RandomShiftsAug 4), Some (RandomShiftsAug 4))"

definition full_aug :: augmenter where
  "full_aug = Transforms
     [ColorJitter (Amount (8 / 10)) (Amount (8 / 10)) (Amount (8 / 10)) (Amount (2 / 10)),
      RandomGrayscale (2 / 10), RandomHorizontalFlip (1 / 10), RandomVerticalFlip (1 / 10),
      RandomApply (GaussianBlur (3, 3) (1, 2)) (1 / 10), RandomInvert (2 / 10),
      RandomResizedCrop (84, 84) (8 / 10, 1) (9 / 10, 11 / 10)]"

text \<open>An actor of the same architecture whose biases are one instead of zero.\<close>

definition actor1 :: nn_module where
  "actor1 =
     \<lparr>weights = [(''policy'',
          [Linear (replicate 1024 (replicate 50 0)) (replicate 1024 1), ReLU,
           Linear (replicate 1024 (replicate 1024 0)) (replicate 1024 1), ReLU,
           Linear (replicate 4 (replicate 1024 0)) (replicate 4 1)])],
      buffers = [], grad = None, training = True\<rparr>"

section \<open>Properties\<close>

subsection \<open>Auxiliary facts\<close>

lemma bindE_Inr_iff: "bindE m f = Inr y \<longleftrightarrow> (\<exists>x. m = Inr x \<and> f x = Inr y)"
  by (cases m) (auto simp: bindE_def)

lemma accumulate_weights [simp]: "weights (accumulate be g m) = weights m"
  by (simp add: accumulate_def split: option.splits)

lemma accumulate_buffers [simp]: "buffers (accumulate be g m) = buffers m"
  by (simp add: accumulate_def split: option.splits)

lemma accumulate_training [simp]: "training (accumulate be g m) = training m"
  by (simp add: accumulate_def split: option.splits)

lemma same_shape_layer_refl: "same_shape_layer l l"
  by (cases l) auto

lemma same_shape_refl [simp]: "same_shape ps ps"
  by (auto simp: same_shape_def list_all2_same same_shape_layer_refl)

lemma torch0_sel [simp]:
  "schedule torch0 = (\<lambda>s t. 1 / 5)"
  "to_torch torch0 = (\<lambda>x. x)"
  "to_float torch0 = (\<lambda>x. x)"
  "tsize torch0 = (\<lambda>x. x)"
  "detach torch0 = (\<lambda>x. x)"
  "item torch0 = (\<lambda>x. 0)"
  "un torch0 = (\<lambda>f x. x)"
  "bin torch0 = (\<lambda>f x y. x)"
  "scalar torch0 = (\<lambda>r. [])"
  "ones torch0 = (\<lambda>sh. sh)"
  "arange torch0 = (\<lambda>n. [n])"
  "cat torch0 = (\<lambda>xs d. concat (take 1 xs))"
  "index torch0 = (\<lambda>x i. x)"
  "frame torch0 = (\<lambda>x i. x)"
  "pad_and_shift torch0 = (\<lambda>p x sh. x)"
  "randint torch0 = (\<lambda>n sh r. (sh, r\<lparr>pos := pos r + 1\<rparr>))"
  "rand torch0 = (\<lambda>sh r. (sh, r\<lparr>pos := pos r + 1\<rparr>))"
  "randperm torch0 = (\<lambda>n r. ([n], r\<lparr>pos := pos r + 1\<rparr>))"
  "randn_like torch0 = (\<lambda>x r. (x, r\<lparr>pos := pos r + 1\<rparr>))"
  "apply_transforms torch0 = (\<lambda>ts x r. (x, r\<lparr>pos := pos r + 1\<rparr>))"
  "apply_net torch0 = (\<lambda>ls x. x)"
  "call_encoder torch0 = (\<lambda>ps x. take 1 x @ [50])"
  "sample_latent torch0 = (\<lambda>b x r. (x, r\<lparr>pos := pos r + 1\<rparr>))"
  "call_actor torch0 = (\<lambda>ps x s. (take 1 x @ [4], take 1 x @ [4]))"
  "call_critic torch0 = (\<lambda>ps x a. (take 1 x @ [1], take 1 x @ [1]))"
  "call_net torch0 = (\<lambda>ps bs x. take 1 x @ [1])"
  "power_iteration torch0 = (\<lambda>ps bs. bs)"
  "tn_sample torch0 = (\<lambda>d c r. (fst d, r\<lparr>pos := pos r + 1\<rparr>))"
  "tn_log_prob torch0 = (\<lambda>d x. x)"
  "tn_entropy torch0 = (\<lambda>d. fst d)"
  "bernoulli_mode torch0 = (\<lambda>l. l)"
  "bernoulli_log_prob torch0 = (\<lambda>l x. x)"
  "autograd_grad torch0 = (\<lambda>y x g. x)"
  "autograd torch0 = (\<lambda>l m. None)"
  "add_grad torch0 = (\<lambda>a b. a)"
  "zero_grad_default torch0 = (\<lambda>g. None)"
  "adam torch0 = (\<lambda>opt w g. (opt, w))"
  "new_Linear torch0 = (\<lambda>i out. Linear (replicate out (replicate i 0)) (replicate out 0))"
  "new_Conv2d torch0 = (\<lambda>i out k s. Conv2d (replicate out (replicate i (replicate k (replicate k 0)))) (replicate out 0) s)"
  "new_Parameter torch0 = (\<lambda>n m. Parameter (replicate n (replicate m 0)))"
  "weight_init torch0 = (\<lambda>l. l)"
  "new_sn_buffers torch0 = (\<lambda>l. [([], [])])"
  by (simp_all add: torch0_def)

lemma upt_0_3: "[0..<3] = [0, 1, 2]"
  by (simp add: upt_rec)

lemmas eval_defs = RandomShiftsAug_forward_def Discriminator_forward_def
  compute_discriminator_grad_penalty_bce_def compute_discriminator_grad_penalty_LS_def
  reward_of_score_def soft_update_params_def next_batch_def to_torch_batch_def bindE_def
  opt_step_def zero_grad_def accumulate_def attr_real_def batch0_def rng0_def Let_def
  new_module_def Discriminator_init_def nn_module.extend_def RewardDecoder_init_def new_Adam_def
  CL_init_def upt_0_3

lemmas bisim_eval = LailBisimAgent_update_def LailBisimAgent_update_discriminator_def
  LailBisimAgent_compute_reward_def LailBisimAgent_update_critic_def LailBisimAgent_update_actor_def
  LailBisimAgent_backward_def bisim0_def LailBisimAgent_train_def

lemmas cl_eval = LailClAgent_update_def LailClAgent_update_discriminator_def
  LailClAgent_compute_reward_def LailClAgent_update_critic_def LailClAgent_update_actor_def
  LailClAgent_backward_def cl0_def LailClAgent_train_def LailClAgent_update_CL_def
  LailClAgent_augment_def call_attr_aug_def RandomShiftsAug_forward_cl_def py_mod_def
  LailClAgent_check_aug_def LailClAgent_check_aug_CL_def size0_def EncoderCL_call_def
  CL_compute_logits_def attr_def cat_frames_def zero_grad_dflt_def shifts4_def

subsection \<open>Off-schedule calls of \<open>update\<close>\<close>

text \<open>
  Claim C5. For every step with \<open>step % update_every_steps != 0\<close> (so
  \<open>update_every_steps\<close> is not zero, for which \<open>%\<close> raises), \<open>update\<close> of either agent
  returns the empty metrics mapping together with the unchanged agent, the unchanged buffer
  iterators and the unchanged random generator: no batch is drawn and no parameter,
  critic-target parameter or optimizer state changes.
\<close>

theorem update_off_schedule_is_noop:
  "(update_every_steps ag \<noteq> 0 \<and> step mod update_every_steps ag \<noteq> 0 \<longrightarrow>
      LailBisimAgent_update be ag it it_e step rng = Inr (Map.empty, ag, it, it_e, rng)) \<and>
   (update_every_steps agc \<noteq> 0 \<and> step mod update_every_steps agc \<noteq> 0 \<longrightarrow>
      LailClAgent_update be agc it it_e it_r it_er step rng
        = Inr (Map.empty, agc, it, it_e, it_r, it_er, rng))"
  by (simp add: LailBisimAgent_update_def LailClAgent_update_def)

theorem update_off_schedule_witness:
  "LailBisimAgent_update torch0 (bisim0 ''deterministic'') [batch0] [batch0] 1 rng0
     = Inr (Map.empty, bisim0 ''deterministic'', [batch0], [batch0], rng0) \<and>
   LailClAgent_update torch0 (cl0 ''nowhere'' shifts4 False) [batch0] [batch0] [batch0] [batch0] 1 rng0
     = Inr (Map.empty, cl0 ''nowhere'' shifts4 False, [batch0], [batch0], [batch0], [batch0], rng0)"
  using update_off_schedule_is_noop
    [where ag = "bisim0 ''deterministic''" and agc = "cl0 ''nowhere'' shifts4 False" and step = 1
       and be = torch0 and it = "[batch0]" and it_e = "[batch0]" and it_r = "[batch0]"
       and it_er = "[batch0]" and rng = rng0]
  by (simp add: bisim0_def cl0_def)

subsection \<open>The actor update\<close>

text \<open>
  Claim C10. In both agents \<open>update_actor\<close> leaves the parameters of every network but the
  actor as they were: encoder, critic, critic target and discriminator (and the transition
  model and reward decoder of the bisimulation agent, the contrastive module of the
  contrastive agent). The backward pass may write gradient buffers of other modules, but
  only the actor's optimizer takes a step.
\<close>

theorem update_actor_changes_only_actor_parameters:
  "(case LailBisimAgent_update_actor be ag obs step rng of (m, ag', rng') \<Rightarrow>
      weights (encoder ag') = weights (encoder ag) \<and>
      weights (critic ag') = weights (critic ag) \<and>
      weights (critic_target ag') = weights (critic_target ag) \<and>
      weights (discriminator ag') = weights (discriminator ag) \<and>
      weights (transition_model ag') = weights (transition_model ag) \<and>
      weights (reward_decoder ag') = weights (reward_decoder ag)) \<and>
   (case LailClAgent_update_actor be agc obs step rng of (m, ag', rng') \<Rightarrow>
      weights (encoder_cl ag') = weights (encoder_cl agc) \<and>
      weights (critic ag') = weights (critic agc) \<and>
      weights (critic_target ag') = weights (critic_target agc) \<and>
      weights (discriminator ag') = weights (discriminator agc) \<and>
      weights (CL ag') = weights (CL agc))"
  by (auto simp: LailBisimAgent_update_actor_def LailBisimAgent_backward_def
        LailClAgent_update_actor_def LailClAgent_backward_def Let_def zero_grad_def
        split: prod.splits)

subsection \<open>The reward computation\<close>

text \<open>
  Claim C9, as amended. Whenever \<open>compute_reward\<close> of either agent returns, the agent's
  state is its state before the call with the discriminator's mode flag set to training:
  the discriminator is scored in evaluation mode and is then put into training mode
  whatever its mode was before, and no parameter, buffer, gradient or optimizer state
  changes. The prior mode is therefore restored exactly when it was training.
\<close>

theorem compute_reward_leaves_discriminator_training:
  "(LailBisimAgent_compute_reward be ag obs_a next_a rng = Inr (reward, m, ag', rng') \<longrightarrow>
      ag' = ag\<lparr>discriminator := (discriminator ag)\<lparr>training := True\<rparr>\<rparr>) \<and>
   (LailClAgent_compute_reward be agc obs_a next_a rng = Inr (reward, m, agc', rng') \<longrightarrow>
      agc' = agc\<lparr>discriminator := (discriminator agc)\<lparr>training := True\<rparr>\<rparr>)"
proof (intro conjI impI)
  assume "LailBisimAgent_compute_reward be ag obs_a next_a rng = Inr (reward, m, ag', rng')"
  then show "ag' = ag\<lparr>discriminator := (discriminator ag)\<lparr>training := True\<rparr>\<rparr>"
    by (auto simp: LailBisimAgent_compute_reward_def bindE_Inr_iff Let_def
          Discriminator_forward_def split: prod.splits if_splits)
next
  assume "LailClAgent_compute_reward be agc obs_a next_a rng = Inr (reward, m, agc', rng')"
  then show "agc' = agc\<lparr>discriminator := (discriminator agc)\<lparr>training := True\<rparr>\<rparr>"
    by (auto simp: LailClAgent_compute_reward_def bindE_Inr_iff Let_def
          Discriminator_forward_def split_def split: if_splits)
qed

text \<open>
  The claim as stated fails for a discriminator in evaluation mode: after
  \<open>agent.train(False)\<close> the discriminator is in evaluation mode, and \<open>compute_reward\<close>
  returns with the discriminator in training mode.
\<close>

theorem compute_reward_mode_counterexample:
  "\<not> training (discriminator (LailBisimAgent_train (bisim0 ''deterministic'') False)) \<and>
   \<not> isl (LailBisimAgent_compute_reward torch0 (LailBisimAgent_train (bisim0 ''deterministic'') False)
            [32, 9, 84, 84] [32, 9, 84, 84] rng0) \<and>
   training (discriminator (fst (snd (snd (projr
     (LailBisimAgent_compute_reward torch0 (LailBisimAgent_train (bisim0 ''deterministic'') False)
            [32, 9, 84, 84] [32, 9, 84, 84] rng0))))))"
  by (simp add: bisim_eval eval_defs)

end
